theory Spec2Isabelle
  imports Complex_Main
begin

section \<open>Data model of the path executor\<close>

text \<open>
  The development follows \<^verbatim>\<open>pyrobosim/navigation/execution.py\<close>, class
  \<^verbatim>\<open>ConstantVelocityExecutor\<close>. Logging and the wall-clock pacing of the loops
  (\<^verbatim>\<open>time.sleep\<close>) are not modelled.
\<close>

text \<open>
  Python floats are IEEE doubles. A double is a real number, and comparisons of doubles
  are the comparisons of these numbers, but an arithmetic operation on doubles is the
  exact operation followed by rounding. The operations the code applies to floats are
  therefore parameters of the model, collected in a record: addition, subtraction,
  multiplication, and \<^verbatim>\<open>numpy\<close>'s cosine and sine. What is proved for every such
  record holds for the double-precision operations.
\<close>

record arith =
  f_add :: "real \<Rightarrow> real \<Rightarrow> real"
  f_sub :: "real \<Rightarrow> real \<Rightarrow> real"
  f_mul :: "real \<Rightarrow> real \<Rightarrow> real"
  f_cos :: "real \<Rightarrow> real"
  f_sin :: "real \<Rightarrow> real"

text \<open>
  The operations without rounding. They agree with the double-precision operations
  wherever the exact result is a double, as for the small integers of the examples
  below.
\<close>

definition exact :: arith where
  "exact = \<lparr>f_add = (+), f_sub = (-), f_mul = (*), f_cos = cos, f_sin = sin\<rparr>"

text \<open>
  An attribute of a Python object that \<^verbatim>\<open>__init__\<close> does not assign does not exist
  until it is assigned; reading it before raises \<^verbatim>\<open>AttributeError\<close>.
\<close>

datatype 'a attribute = Unassigned | Assigned 'a

text \<open>A pose: position and heading (\<^verbatim>\<open>Pose.x\<close>, \<^verbatim>\<open>Pose.y\<close>, \<^verbatim>\<open>Pose.get_yaw()\<close>).\<close>

record pose =
  pose_x :: real
  pose_y :: real
  pose_yaw :: real

text \<open>A path is its list of waypoints; \<^verbatim>\<open>Path.num_poses\<close> is their number.\<close>

type_synonym path = "pose list"

definition num_poses :: "path \<Rightarrow> nat" where
  "num_poses p = length p"

text \<open>
  A trajectory holds timestamps \<^verbatim>\<open>t_pts\<close> and poses \<^verbatim>\<open>poses\<close> of the same
  length; it is kept as the list of its samples.
\<close>

type_synonym trajectory = "(real \<times> pose) list"

definition t_pts :: "trajectory \<Rightarrow> real list" where
  "t_pts tr = map fst tr"

definition poses :: "trajectory \<Rightarrow> pose list" where
  "poses tr = map snd tr"

definition num_points :: "trajectory \<Rightarrow> nat" where
  "num_points tr = length tr"

datatype ExecutionStatus = SUCCESS | CANCELED | EXECUTION_FAILURE | PRECONDITION_FAILURE

record ExecutionResult =
  status :: ExecutionStatus
  message :: string

text \<open>Exceptions the Python code raises on the inputs the model admits.\<close>

datatype exn = IndexError | ZeroDivisionError | UnboundLocalError | AttributeError

text \<open>
  Python sets hold objects, and a hallway object stays the same object when its
  attributes change. An object is identified by a reference.
\<close>

type_synonym ref = nat

text \<open>
  A hallway object: its reference and its attributes, name, ground-truth flag and
  collision polygon. The polygon type \<open>'g\<close> and the containment test of \<^verbatim>\<open>shapely\<close>
  are parameters of the model.
\<close>

record 'g hallway =
  hallway_ref :: ref
  hallway_name :: string
  is_open :: bool
  internal_collision_polygon :: 'g

record 'g world =
  hallways :: "'g hallway list"

text \<open>
  The planner classes the executor distinguishes with \<^verbatim>\<open>isinstance\<close>; every other
  planner class is \<open>OtherPlanner\<close>.
\<close>

datatype planner = PRMPlanner | AStarPlanner | OtherPlanner

record lidar2d =
  angles :: "real list"
  max_range_m :: real

datatype sensor = Lidar2D lidar2d | OtherSensor

record 'g robot =
  robot_pose :: pose
  battery_level :: real
  manipulated_object :: "pose option"
  world :: "'g world option"
  fog_hallways :: bool
  path_planner :: "planner option"
  recorded_closed_hallways :: "ref set"
  sensors :: "string \<Rightarrow> sensor option"
  last_nav_result :: "ExecutionResult option"

text \<open>A thread handle records the method the thread runs.\<close>

datatype thread_target = ValidateRemainingPath | DetectClosedHallway

text \<open>
  The attributes of a \<^verbatim>\<open>ConstantVelocityExecutor\<close>, in the order \<^verbatim>\<open>__init__\<close> and
  \<^verbatim>\<open>reset_state\<close> assign them, and \<^verbatim>\<open>self.traj\<close>, which only \<^verbatim>\<open>execute\<close> assigns.
  The attached robot (\<^verbatim>\<open>self.robot\<close>) is a separate object and is passed beside
  the executor.
\<close>

record executor =
  dt :: real
  linear_velocity :: real
  max_angular_velocity :: "real option"
  validation_timer :: "thread_target option"
  validate_during_execution :: bool
  validation_dt :: real
  validation_step_dist :: real
  lidar_sensor_timer :: "thread_target option"
  lidar_sensor_name :: "string option"
  lidar_sensor_measurement_dt :: real
  current_traj_time :: real
  following_path :: bool
  abort_execution :: bool
  cancel_execution :: bool
  hallway_states_updated :: bool
  traj :: "trajectory option attribute"

definition reset_state :: "executor \<Rightarrow> executor" where
  "reset_state e = e\<lparr>current_traj_time := 0, following_path := False,
     abort_execution := False, cancel_execution := False,
     hallway_states_updated := False\<rparr>"

text \<open>
  The five fields of the execution state are at their baseline when they have the values
  \<^verbatim>\<open>reset_state\<close> assigns.
\<close>

definition baseline :: "executor \<Rightarrow> bool" where
  "baseline e = (current_traj_time e = 0 \<and> \<not> following_path e \<and> \<not> abort_execution e
     \<and> \<not> cancel_execution e \<and> \<not> hallway_states_updated e)"

section \<open>The controller thread and its environment\<close>

text \<open>
  What the controller thread does to objects outside the executor is recorded, in order,
  as a list of events.
\<close>

datatype event =
    SetPose pose
  | SetObjectPose pose
  | ThreadStart thread_target
  | ThreadJoin thread_target
  | ResetPathPlanner

text \<open>The state of one running call: the executor, the attached robot, the events so far.\<close>

record 'g run =
  exe :: executor
  rob :: "'g robot"
  evs :: "event list"

text \<open>
  The other threads write to the shared state while \<^verbatim>\<open>execute\<close> runs. Their writes are
  \<^item> \<open>SetAbort\<close>: the validator's \<^verbatim>\<open>self.abort_execution = True\<close>;
  \<^item> \<open>SetCancel\<close>: the user's \<^verbatim>\<open>cancel_execution = True\<close> (``flag to cancel from user'');
  \<^item> \<open>AddHallway h\<close>, \<open>RemoveHallway h\<close>: the tracker's \<^verbatim>\<open>add\<close> or \<^verbatim>\<open>remove\<close> of the
    hallway object \<open>h\<close> in \<^verbatim>\<open>recorded_closed_hallways\<close>, followed by
    \<^verbatim>\<open>self.hallway_states_updated = True\<close>.
\<close>

datatype env_action =
    SetAbort
  | SetCancel
  | AddHallway ref
  | RemoveHallway ref

fun env_step :: "'g run \<Rightarrow> env_action \<Rightarrow> 'g run" where
  "env_step s SetAbort = s\<lparr>exe := (exe s)\<lparr>abort_execution := True\<rparr>\<rparr>"
| "env_step s SetCancel = s\<lparr>exe := (exe s)\<lparr>cancel_execution := True\<rparr>\<rparr>"
| "env_step s (AddHallway h) =
     s\<lparr>rob := (rob s)\<lparr>recorded_closed_hallways := insert h (recorded_closed_hallways (rob s))\<rparr>,
       exe := (exe s)\<lparr>hallway_states_updated := True\<rparr>\<rparr>"
| "env_step s (RemoveHallway h) =
     s\<lparr>rob := (rob s)\<lparr>recorded_closed_hallways := recorded_closed_hallways (rob s) - {h}\<rparr>,
       exe := (exe s)\<lparr>hallway_states_updated := True\<rparr>\<rparr>"

definition env_steps :: "env_action list \<Rightarrow> 'g run \<Rightarrow> 'g run" where
  "env_steps as s = foldl env_step s as"

text \<open>
  A schedule fixes which writes of the other threads fall between which reads and writes
  of the controller thread. The controller reads \<^verbatim>\<open>abort_execution\<close> and
  \<^verbatim>\<open>cancel_execution\<close> once in every tick and \<^verbatim>\<open>hallway_states_updated\<close> once after
  the loop, and it overwrites the flags in the final \<^verbatim>\<open>reset_state\<close>; writes of the
  other threads anywhere else commute with the controller's own steps.
\<close>

record schedule =
  before_abort_check :: "nat \<Rightarrow> env_action list"
  before_cancel_check :: "nat \<Rightarrow> env_action list"
  before_planner_check :: "env_action list"
  before_final_reset :: "env_action list"
  before_return :: "env_action list"

definition quiet :: "schedule" where
  "quiet = \<lparr>before_abort_check = (\<lambda>i. []), before_cancel_check = (\<lambda>i. []),
     before_planner_check = [], before_final_reset = [], before_return = []\<rparr>"

text \<open>
  Modelled from the spec: the robot capability \<^verbatim>\<open>set_pose(Pose)\<close> (class \<^verbatim>\<open>Robot\<close> is
  not among the sources) stores the pose.
\<close>

definition set_pose :: "pose \<Rightarrow> 'g run \<Rightarrow> 'g run" where
  "set_pose p s = s\<lparr>rob := (rob s)\<lparr>robot_pose := p\<rparr>, evs := evs s @ [SetPose p]\<rparr>"

text \<open>
  Modelled from the spec: \<^verbatim>\<open>manipulated_object.set_pose(Pose)\<close> stores the pose of the
  object the robot holds.
\<close>

definition set_object_pose :: "pose \<Rightarrow> 'g run \<Rightarrow> 'g run" where
  "set_object_pose p s =
     s\<lparr>rob := (rob s)\<lparr>manipulated_object := Some p\<rparr>, evs := evs s @ [SetObjectPose p]\<rparr>"

text \<open>\<^verbatim>\<open>if cond and (timer is not None): timer.join()\<close>\<close>

definition join_if :: "bool \<Rightarrow> thread_target option \<Rightarrow> 'g run \<Rightarrow> 'g run" where
  "join_if c h s =
     (case h of None \<Rightarrow> s
      | Some t \<Rightarrow> if c then s\<lparr>evs := evs s @ [ThreadJoin t]\<rparr> else s)"

text \<open>
  The head of the loop body, for the sample \<open>(t, cur_pose)\<close>: \<^verbatim>\<open>current_traj_time\<close>
  is updated and the pose is pushed to the robot and to the object it holds.
\<close>

definition push_sample :: "real \<times> pose \<Rightarrow> 'g run \<Rightarrow> 'g run" where
  "push_sample tp s =
     (let cur_pose = snd tp;
          s1 = s\<lparr>exe := (exe s)\<lparr>current_traj_time := fst tp\<rparr>\<rparr>;
          s2 = set_pose cur_pose s1
      in if manipulated_object (rob s2) \<noteq> None then set_object_pose cur_pose s2 else s2)"

text \<open>
  One pass through the body of the main loop, with the float operations \<open>ar\<close>. The
  distance \<^verbatim>\<open>Pose.get_linear_distance\<close> is the parameter \<open>lin_dist\<close>; \<open>ea\<close> and \<open>ec\<close> are the
  writes of the other threads that fall before the read of \<^verbatim>\<open>abort_execution\<close> and
  between that read and the read of \<^verbatim>\<open>cancel_execution\<close>. The result holds the state
  after the pass and, when the pass ends in \<^verbatim>\<open>break\<close>, the status and message set
  before it.
\<close>

definition tick ::
  "arith \<Rightarrow> real \<Rightarrow> (pose \<Rightarrow> pose \<Rightarrow> real) \<Rightarrow> env_action list \<Rightarrow> env_action list \<Rightarrow>
   pose \<Rightarrow> real \<times> pose \<Rightarrow> 'g run \<Rightarrow> 'g run \<times> (ExecutionStatus \<times> string) option" where
  "tick ar battery_usage lin_dist ea ec prev_pose tp s =
     (let cur_pose = snd tp;
          s4 = env_steps ea (push_sample tp s)
      in if abort_execution (exe s4) then
           (join_if (fog_hallways (rob s4)) (lidar_sensor_timer (exe s4))
              (join_if (validate_during_execution (exe s4)) (validation_timer (exe s4)) s4),
            Some (EXECUTION_FAILURE, ''Trajectory execution aborted.''))
         else
           let s5 = env_steps ec s4
           in if cancel_execution (exe s5) then
                (s5\<lparr>exe := (exe s5)\<lparr>cancel_execution := False\<rparr>\<rparr>,
                 Some (CANCELED, ''Trajectory execution canceled by user.''))
              else
                let s6 = s5\<lparr>rob := (rob s5)\<lparr>battery_level :=
                           f_sub ar (battery_level (rob s5))
                             (f_mul ar battery_usage (lin_dist cur_pose prev_pose))\<rparr>\<rparr>
                in if battery_level (rob s6) \<le> 0 then
                     (s6\<lparr>rob := (rob s6)\<lparr>battery_level := 0\<rparr>\<rparr>,
                      Some (EXECUTION_FAILURE, ''Battery depleted while navigating.''))
                   else (s6, None))"

text \<open>
  The main loop over the samples that are left, \<open>i\<close> being the index of the first of them.
  Leaving the loop without \<^verbatim>\<open>break\<close> keeps the initial status \<^verbatim>\<open>SUCCESS\<close> and the
  empty message.
\<close>

fun main_loop ::
  "arith \<Rightarrow> real \<Rightarrow> (pose \<Rightarrow> pose \<Rightarrow> real) \<Rightarrow> schedule \<Rightarrow> nat \<Rightarrow> pose \<Rightarrow> trajectory \<Rightarrow>
   'g run \<Rightarrow> 'g run \<times> ExecutionStatus \<times> string" where
  "main_loop ar battery_usage lin_dist sch i prev_pose [] s = (s, SUCCESS, [])"
| "main_loop ar battery_usage lin_dist sch i prev_pose (tp # rest) s =
     (case tick ar battery_usage lin_dist (before_abort_check sch i) (before_cancel_check sch i)
             prev_pose tp s of
        (s', Some (st, msg)) \<Rightarrow> (s', st, msg)
      | (s', None) \<Rightarrow> main_loop ar battery_usage lin_dist sch (Suc i) (snd tp) rest s')"

text \<open>
  The start of a run: state reset, \<^verbatim>\<open>following_path = True\<close>, and the two optional
  thread starts.
\<close>

definition start_run :: "'g run \<Rightarrow> 'g run" where
  "start_run s =
     (let s1 = s\<lparr>exe := (reset_state (exe s))\<lparr>following_path := True\<rparr>\<rparr>;
          s2 = (if validate_during_execution (exe s1) \<and> world (rob s1) \<noteq> None then
                  s1\<lparr>exe := (exe s1)\<lparr>validation_timer := Some ValidateRemainingPath\<rparr>,
                     evs := evs s1 @ [ThreadStart ValidateRemainingPath]\<rparr>
                else s1)
      in if fog_hallways (rob s2) then
           s2\<lparr>exe := (exe s2)\<lparr>lidar_sensor_timer := Some DetectClosedHallway\<rparr>,
              evs := evs s2 @ [ThreadStart DetectClosedHallway]\<rparr>
         else s2)"

text \<open>
  Modelled from the spec: the robot capability \<^verbatim>\<open>reset_path_planner()\<close> invokes the
  planner's reset hook; the model records the invocation.
\<close>

definition reset_path_planner :: "'g run \<Rightarrow> 'g run" where
  "reset_path_planner s = s\<lparr>evs := evs s @ [ResetPathPlanner]\<rparr>"

text \<open>The planner check after the loop.\<close>

definition planner_check :: "'g run \<Rightarrow> 'g run" where
  "planner_check s =
     (if hallway_states_updated (exe s) then
        (if path_planner (rob s) = Some PRMPlanner \<or> path_planner (rob s) = Some AStarPlanner
         then reset_path_planner s else s)
      else s)"

text \<open>
  The end of a run, from the exit of the main loop to \<^verbatim>\<open>return\<close>: planner check, state
  reset, grace period, and the result stored in \<^verbatim>\<open>last_nav_result\<close>.
\<close>

definition finish_run ::
  "schedule \<Rightarrow> ExecutionStatus \<Rightarrow> string \<Rightarrow> 'g run \<Rightarrow> 'g run \<times> ExecutionResult" where
  "finish_run sch st msg s =
     (let s1 = planner_check (env_steps (before_planner_check sch) s);
          s2 = env_steps (before_final_reset sch) s1;
          s3 = s2\<lparr>exe := reset_state (exe s2)\<rparr>;
          s4 = env_steps (before_return sch) s3;
          res = \<lparr>status = st, message = msg\<rparr>
      in (s4\<lparr>rob := (rob s4)\<lparr>last_nav_result := Some res\<rparr>\<rparr>, res))"

text \<open>
  What a call of \<^verbatim>\<open>execute\<close> leaves behind: the executor, the attached robot, the events
  of the call, and the returned result or the exception raised.
\<close>

record 'g outcome =
  final_exe :: executor
  final_rob :: "'g robot option"
  events :: "event list"
  result :: "exn + ExecutionResult"

definition precondition_failure :: "executor \<Rightarrow> 'g robot option \<Rightarrow> string \<Rightarrow> 'g outcome" where
  "precondition_failure e ro msg =
     \<lparr>final_exe = e, final_rob = ro, events = [],
      result = Inr \<lparr>status = PRECONDITION_FAILURE, message = msg\<rparr>\<rparr>"

definition raised :: "'g run \<Rightarrow> exn \<Rightarrow> 'g outcome" where
  "raised s x = \<lparr>final_exe = exe s, final_rob = Some (rob s), events = evs s, result = Inl x\<rparr>"

text \<open>
  The first part of \<^verbatim>\<open>execute\<close>, up to the last precondition check. The trajectory
  functions \<^verbatim>\<open>get_constant_speed_trajectory\<close> and \<^verbatim>\<open>interpolate_trajectory\<close> are the
  parameters \<open>gen\<close> and \<open>interp\<close>. The result is the outcome of a failed check, or the
  interpolated trajectory and the state in which the run starts.
\<close>

definition preconditions ::
  "(path \<Rightarrow> real \<Rightarrow> real option \<Rightarrow> trajectory option) \<Rightarrow> (trajectory \<Rightarrow> real \<Rightarrow> trajectory option) \<Rightarrow>
   path \<Rightarrow> executor \<Rightarrow> 'g robot option \<Rightarrow> 'g outcome + trajectory \<times> 'g run" where
  "preconditions gen interp path e ro =
     (case ro of
        None \<Rightarrow> Inl (precondition_failure e ro ''No robot attached to execute the trajectory.'')
      | Some r \<Rightarrow>
          if num_poses path < 2 then
            Inl (precondition_failure e ro ''Not enough waypoints in path to execute.'')
          else
            let new_traj = gen path (linear_velocity e) (max_angular_velocity e);
                e1 = e\<lparr>traj := Assigned new_traj\<rparr>
            in case new_traj of
                 None \<Rightarrow> Inl (precondition_failure e1 ro ''Failed to get trajectory from path.'')
               | Some tr \<Rightarrow>
                  (case interp tr (dt e1) of
                     None \<Rightarrow> Inl (precondition_failure e1 ro ''Failed to interpolate trajectory.'')
                   | Some traj_interp \<Rightarrow> Inr (traj_interp, \<lparr>exe = e1, rob = r, evs = []\<rparr>)))"

text \<open>
  The second part of \<^verbatim>\<open>execute\<close>, from the first \<^verbatim>\<open>reset_state\<close> to \<^verbatim>\<open>return\<close>.
  Python raises \<^verbatim>\<open>ZeroDivisionError\<close> in \<^verbatim>\<open>self.dt / realtime_factor\<close> and
  \<^verbatim>\<open>IndexError\<close> in \<^verbatim>\<open>traj_interp.poses[0]\<close>.
\<close>

definition follow ::
  "arith \<Rightarrow> (pose \<Rightarrow> pose \<Rightarrow> real) \<Rightarrow> schedule \<Rightarrow> real \<Rightarrow> real \<Rightarrow> trajectory \<Rightarrow> 'g run \<Rightarrow> 'g outcome" where
  "follow ar lin_dist sch realtime_factor battery_usage traj_interp s0 =
     (let s = start_run s0
      in if realtime_factor = 0 then raised s ZeroDivisionError
         else case traj_interp of
                [] \<Rightarrow> raised s IndexError
              | tp0 # _ \<Rightarrow>
                  (case main_loop ar battery_usage lin_dist sch 0 (snd tp0) traj_interp s of
                     (s', st, msg) \<Rightarrow>
                       (case finish_run sch st msg s' of
                          (s'', res) \<Rightarrow>
                            \<lparr>final_exe = exe s'', final_rob = Some (rob s''),
                             events = evs s'', result = Inr res\<rparr>)))"

text \<open>\<^verbatim>\<open>execute(path, realtime_factor, battery_usage)\<close>.\<close>

definition execute ::
  "arith \<Rightarrow> (path \<Rightarrow> real \<Rightarrow> real option \<Rightarrow> trajectory option) \<Rightarrow> (trajectory \<Rightarrow> real \<Rightarrow> trajectory option) \<Rightarrow>
   (pose \<Rightarrow> pose \<Rightarrow> real) \<Rightarrow> schedule \<Rightarrow>
   path \<Rightarrow> real \<Rightarrow> real \<Rightarrow> executor \<Rightarrow> 'g robot option \<Rightarrow> 'g outcome" where
  "execute ar gen interp lin_dist sch path realtime_factor battery_usage e ro =
     (case preconditions gen interp path e ro of
        Inl out \<Rightarrow> out
      | Inr (traj_interp, s0) \<Rightarrow>
          follow ar lin_dist sch realtime_factor battery_usage traj_interp s0)"

section \<open>The path validator\<close>

text \<open>
  \<^verbatim>\<open>for idx, t in enumerate(self.traj.t_pts): if t >= cur_time: break\<close>. The argument
  \<open>idx\<close> is the value the loop variable holds so far (\<open>None\<close> before the first pass), \<open>i\<close>
  the index of the next timestamp. After the loop \<open>idx\<close> is the index at which the loop
  broke, or the last index when it never broke, or unbound for an empty list.
\<close>

fun enum_break :: "real \<Rightarrow> nat \<Rightarrow> nat option \<Rightarrow> real list \<Rightarrow> nat option" where
  "enum_break cur_time i idx [] = idx"
| "enum_break cur_time i idx (t # ts) =
     (if t \<ge> cur_time then Some i else enum_break cur_time (Suc i) (Some i) ts)"

text \<open>How one pass through a background loop ends.\<close>

datatype 'a pass = Raised exn | Returned | Continue 'a

text \<open>
  One pass through the loop of \<^verbatim>\<open>validate_remaining_path\<close>, for the trajectory
  \<^verbatim>\<open>self.traj\<close>. The collision check \<^verbatim>\<open>World.is_path_collision_free\<close> is the parameter
  \<open>collision_free\<close>, applied to the poses of the remaining path, the step distance, the
  robot's \<^verbatim>\<open>fog_hallways\<close> flag and its recorded closed hallways.
\<close>

definition validate_pass ::
  "(pose list \<Rightarrow> real \<Rightarrow> bool \<Rightarrow> ref set \<Rightarrow> bool) \<Rightarrow> trajectory \<Rightarrow> 'g run \<Rightarrow> 'g run pass" where
  "validate_pass collision_free tr s =
     (let cur_pose = robot_pose (rob s);
          cur_time = current_traj_time (exe s)
      in case enum_break cur_time 0 None (t_pts tr) of
           None \<Rightarrow> Raised UnboundLocalError
         | Some idx \<Rightarrow>
             if idx = num_points tr - 1 then Returned
             else
               let ps = cur_pose # drop idx (poses tr)
               in if length ps > 2 then
                    (if world (rob s) \<noteq> None \<and>
                        \<not> collision_free ps (validation_step_dist (exe s)) (fog_hallways (rob s))
                            (recorded_closed_hallways (rob s))
                     then Continue (s\<lparr>exe := (exe s)\<lparr>abort_execution := True\<rparr>\<rparr>)
                     else Continue s)
                  else Continue s)"

text \<open>
  \<^verbatim>\<open>validate_remaining_path\<close> up to the end of its first pass, with a robot attached:
  the read of \<^verbatim>\<open>self.traj\<close>, which raises when \<^verbatim>\<open>execute\<close> has never assigned it, the
  early return, the loop condition, the pass.
\<close>

definition validate_remaining_path ::
  "(pose list \<Rightarrow> real \<Rightarrow> bool \<Rightarrow> ref set \<Rightarrow> bool) \<Rightarrow> 'g run \<Rightarrow> 'g run pass" where
  "validate_remaining_path collision_free s =
     (case traj (exe s) of
        Unassigned \<Rightarrow> Raised AttributeError
      | Assigned None \<Rightarrow> Returned
      | Assigned (Some tr) \<Rightarrow>
          if following_path (exe s) \<and> \<not> abort_execution (exe s)
          then validate_pass collision_free tr s else Returned)"

section \<open>The hallway tracker\<close>

text \<open>
  The first loop of a pass: the beams shorter than the maximum range, as points of the
  world frame, computed with the float operations \<open>ar\<close>. \<open>acc\<close> is the list
  \<^verbatim>\<open>analyse_pose\<close> built so far.
\<close>

fun analyse_beams ::
  "arith \<Rightarrow> pose \<Rightarrow> real \<Rightarrow> (real \<times> real) list \<Rightarrow> (real \<times> real) list \<Rightarrow> (real \<times> real) list" where
  "analyse_beams ar cur_pose max_range acc [] = acc"
| "analyse_beams ar cur_pose max_range acc ((angle, len) # beams) =
     (if len < max_range then
        (let adjusted_angle = f_add ar angle (pose_yaw cur_pose);
             x = f_add ar (pose_x cur_pose) (f_mul ar len (f_cos ar adjusted_angle));
             y = f_add ar (pose_y cur_pose) (f_mul ar len (f_sin ar adjusted_angle))
         in analyse_beams ar cur_pose max_range (acc @ [(x, y)]) beams)
      else analyse_beams ar cur_pose max_range acc beams)"

definition analyse_pose :: "arith \<Rightarrow> pose \<Rightarrow> lidar2d \<Rightarrow> real list \<Rightarrow> (real \<times> real) list" where
  "analyse_pose ar cur_pose lidar measured_lengths =
     analyse_beams ar cur_pose (max_range_m lidar) [] (zip (angles lidar) measured_lengths)"

text \<open>
  The inner loop over the hallways for one point. The state is the recorded set, a set of
  hallway objects, and the flag \<^verbatim>\<open>hallway_states_updated\<close>; \<open>intersects_xy\<close> is
  \<^verbatim>\<open>shapely.intersects_xy\<close>. Membership in the set is membership of the object, whatever
  its attributes are now.
\<close>

fun scan_hallways ::
  "('g \<Rightarrow> real \<Rightarrow> real \<Rightarrow> bool) \<Rightarrow> real \<times> real \<Rightarrow> 'g hallway list \<Rightarrow>
   ref set \<times> bool \<Rightarrow> ref set \<times> bool" where
  "scan_hallways intersects_xy p [] st = st"
| "scan_hallways intersects_xy p (h # hs) st =
     (if intersects_xy (internal_collision_polygon h) (fst p) (snd p) then
        (if \<not> is_open h then
           (if hallway_ref h \<notin> fst st then (insert (hallway_ref h) (fst st), True)
            else scan_hallways intersects_xy p hs st)
         else
           (if hallway_ref h \<in> fst st then (fst st - {hallway_ref h}, True)
            else scan_hallways intersects_xy p hs st))
      else scan_hallways intersects_xy p hs st)"

text \<open>The outer loop over the points.\<close>

fun scan_points ::
  "('g \<Rightarrow> real \<Rightarrow> real \<Rightarrow> bool) \<Rightarrow> 'g hallway list \<Rightarrow> (real \<times> real) list \<Rightarrow>
   ref set \<times> bool \<Rightarrow> ref set \<times> bool" where
  "scan_points intersects_xy hs [] st = st"
| "scan_points intersects_xy hs (p # ps) st =
     scan_points intersects_xy hs ps (scan_hallways intersects_xy p hs st)"

text \<open>
  One pass through the loop of \<^verbatim>\<open>detect_closed_hallway\<close>, for the measurement
  \<^verbatim>\<open>lidar_sensor.get_measurement()\<close> returned in this pass.
\<close>

definition detect_pass ::
  "arith \<Rightarrow> ('g \<Rightarrow> real \<Rightarrow> real \<Rightarrow> bool) \<Rightarrow> 'g world \<Rightarrow> lidar2d \<Rightarrow> real list \<Rightarrow> 'g run \<Rightarrow> 'g run" where
  "detect_pass ar intersects_xy w lidar measured_lengths s =
     (let cur_pose = robot_pose (rob s);
          st = scan_points intersects_xy (hallways w)
                 (analyse_pose ar cur_pose lidar measured_lengths)
                 (recorded_closed_hallways (rob s), hallway_states_updated (exe s))
      in s\<lparr>rob := (rob s)\<lparr>recorded_closed_hallways := fst st\<rparr>,
           exe := (exe s)\<lparr>hallway_states_updated := snd st\<rparr>\<rparr>)"

text \<open>
  \<^verbatim>\<open>detect_closed_hallway\<close> up to the end of its first pass, with a robot attached: the
  early returns (no world, no sensor name, no 2D lidar under that name), the loop
  condition, the pass.
\<close>

definition detect_closed_hallway ::
  "arith \<Rightarrow> ('g \<Rightarrow> real \<Rightarrow> real \<Rightarrow> bool) \<Rightarrow> real list \<Rightarrow> 'g run \<Rightarrow> 'g run pass" where
  "detect_closed_hallway ar intersects_xy measured_lengths s =
     (case world (rob s) of
        None \<Rightarrow> Returned
      | Some w \<Rightarrow>
         (case lidar_sensor_name (exe s) of
            None \<Rightarrow> Returned
          | Some n \<Rightarrow>
             (case sensors (rob s) n of
                Some (Lidar2D lidar) \<Rightarrow>
                  if following_path (exe s) \<and> \<not> abort_execution (exe s)
                  then Continue (detect_pass ar intersects_xy w lidar measured_lengths s)
                  else Returned
              | _ \<Rightarrow> Returned)))"

section \<open>Serialization\<close>

text \<open>The values a configuration dictionary holds.\<close>

datatype pyval = PStr string | PFloat real | PBool bool | PNone

definition opt_float :: "real option \<Rightarrow> pyval" where
  "opt_float v = (case v of None \<Rightarrow> PNone | Some r \<Rightarrow> PFloat r)"

definition opt_str :: "string option \<Rightarrow> pyval" where
  "opt_str v = (case v of None \<Rightarrow> PNone | Some r \<Rightarrow> PStr r)"

text \<open>\<^verbatim>\<open>to_dict\<close>: the dictionary, in insertion order.\<close>

definition to_dict :: "executor \<Rightarrow> (string \<times> pyval) list" where
  "to_dict e =
     [(''type'', PStr ''constant_velocity''),
      (''dt'', PFloat (dt e)),
      (''linear_velocity'', PFloat (linear_velocity e)),
      (''max_angular_velocity'', opt_float (max_angular_velocity e)),
      (''validate_during_execution'', PBool (validate_during_execution e)),
      (''validation_dt'', PFloat (validation_dt e)),
      (''validation_step_dist'', PFloat (validation_step_dist e)),
      (''lidar_sensor_name'', opt_str (lidar_sensor_name e)),
      (''lidar_sensor_measurement_dt'', PFloat (lidar_sensor_measurement_dt e))]"

text \<open>
  \<^verbatim>\<open>__init__\<close>: the configuration from the arguments, no thread handles, the execution
  state reset. \<^verbatim>\<open>self.traj\<close> is not assigned.
\<close>

definition init ::
  "real \<Rightarrow> real \<Rightarrow> real option \<Rightarrow> bool \<Rightarrow> real \<Rightarrow> real \<Rightarrow> string option \<Rightarrow> real \<Rightarrow> executor" where
  "init dt0 lv mav vde vdt vsd lsn lsmdt =
     reset_state
       \<lparr>dt = dt0, linear_velocity = lv, max_angular_velocity = mav,
        validation_timer = None, validate_during_execution = vde,
        validation_dt = vdt, validation_step_dist = vsd,
        lidar_sensor_timer = None, lidar_sensor_name = lsn,
        lidar_sensor_measurement_dt = lsmdt,
        current_traj_time = 0, following_path = False, abort_execution = False,
        cancel_execution = False, hallway_states_updated = False, traj = Unassigned\<rparr>"

text \<open>Reading one keyword argument: the default when the key is missing.\<close>

definition kw_float :: "(string \<times> pyval) list \<Rightarrow> string \<Rightarrow> real \<Rightarrow> real option" where
  "kw_float d k dflt =
     (case map_of d k of None \<Rightarrow> Some dflt | Some (PFloat r) \<Rightarrow> Some r | Some _ \<Rightarrow> None)"

definition kw_bool :: "(string \<times> pyval) list \<Rightarrow> string \<Rightarrow> bool \<Rightarrow> bool option" where
  "kw_bool d k dflt =
     (case map_of d k of None \<Rightarrow> Some dflt | Some (PBool b) \<Rightarrow> Some b | Some _ \<Rightarrow> None)"

definition kw_opt_float :: "(string \<times> pyval) list \<Rightarrow> string \<Rightarrow> real option option" where
  "kw_opt_float d k =
     (case map_of d k of None \<Rightarrow> Some None | Some PNone \<Rightarrow> Some None
      | Some (PFloat r) \<Rightarrow> Some (Some r) | Some _ \<Rightarrow> None)"

definition kw_opt_str :: "(string \<times> pyval) list \<Rightarrow> string \<Rightarrow> string option option" where
  "kw_opt_str d k =
     (case map_of d k of None \<Rightarrow> Some None | Some PNone \<Rightarrow> Some None
      | Some (PStr r) \<Rightarrow> Some (Some r) | Some _ \<Rightarrow> None)"

text \<open>
  Modelled from the spec: deserialization of the configuration record is not among the
  sources. The record's \<open>type\<close> selects the constant-velocity executor and the other
  fields are the keyword arguments of \<^verbatim>\<open>__init__\<close>, with its defaults for missing
  keys. A record of another type, or with a value of the wrong kind, gives \<open>None\<close>.
\<close>

definition from_dict :: "(string \<times> pyval) list \<Rightarrow> executor option" where
  "from_dict d =
     (if map_of d ''type'' \<noteq> Some (PStr ''constant_velocity'') then None
      else
        case (kw_float d ''dt'' (1 / 10), kw_float d ''linear_velocity'' 1,
              kw_opt_float d ''max_angular_velocity'',
              kw_bool d ''validate_during_execution'' False,
              kw_float d ''validation_dt'' (1 / 2), kw_float d ''validation_step_dist'' (25 / 1000),
              kw_opt_str d ''lidar_sensor_name'',
              kw_float d ''lidar_sensor_measurement_dt'' (1 / 4)) of
          (Some a, Some b, Some c, Some f, Some g, Some h, Some i, Some j) \<Rightarrow>
             Some (init a b c f g h i j)
        | _ \<Rightarrow> None)"

section \<open>Observations on runs\<close>

text \<open>The writes of the tracker among the writes of the other threads.\<close>

fun tracker_write :: "env_action \<Rightarrow> bool" where
  "tracker_write (AddHallway h) = True"
| "tracker_write (RemoveHallway h) = True"
| "tracker_write a = False"

text \<open>The effect of one write of another thread on the recorded closed hallways.\<close>

fun record_step :: "ref set \<Rightarrow> env_action \<Rightarrow> ref set" where
  "record_step r (AddHallway h) = insert h r"
| "record_step r (RemoveHallway h) = r - {h}"
| "record_step r a = r"

text \<open>The poses pushed to the robot, in order, among the events of a run.\<close>

fun pose_updates :: "event list \<Rightarrow> pose list" where
  "pose_updates [] = []"
| "pose_updates (SetPose p # xs) = p # pose_updates xs"
| "pose_updates (x # xs) = pose_updates xs"


text \<open>The events the loop body can add.\<close>

fun loop_event :: "event \<Rightarrow> bool" where
  "loop_event (SetPose p) = True"
| "loop_event (SetObjectPose p) = True"
| "loop_event (ThreadJoin t) = True"
| "loop_event x = False"

text \<open>
  What the loop body leaves alone: the configuration and handles it reads, the robot's
  setup, and all earlier events.
\<close>

definition setup_kept :: "'g run \<Rightarrow> 'g run \<Rightarrow> bool" where
  "setup_kept s s' =
     (validate_during_execution (exe s') = validate_during_execution (exe s)
      \<and> validation_timer (exe s') = validation_timer (exe s)
      \<and> lidar_sensor_timer (exe s') = lidar_sensor_timer (exe s)
      \<and> following_path (exe s') = following_path (exe s)
      \<and> fog_hallways (rob s') = fog_hallways (rob s)
      \<and> path_planner (rob s') = path_planner (rob s)
      \<and> world (rob s') = world (rob s)
      \<and> (\<exists>new. evs s' = evs s @ new \<and> list_all loop_event new))"



section \<open>Example inputs\<close>

text \<open>
  Hallway polygons of the examples are axis-parallel boxes \<open>(x0, x1, y0, y1)\<close>, with the
  containment test for \<^verbatim>\<open>shapely.intersects_xy\<close>.
\<close>

type_synonym box = "real \<times> real \<times> real \<times> real"

definition ex_intersects_xy :: "box \<Rightarrow> real \<Rightarrow> real \<Rightarrow> bool" where
  "ex_intersects_xy b x y =
     (case b of (x0, x1, y0, y1) \<Rightarrow> x0 \<le> x \<and> x \<le> x1 \<and> y0 \<le> y \<and> y \<le> y1)"

text \<open>
  A robot with a 2D lidar named \<open>lidar\<close> (one beam, straight ahead, maximum range 2) and a
  PRM planner, in a world with one closed hallway beyond the end of the path; an executor
  that validates, uses that lidar, and has time step 1 and velocity 1; a trajectory of
  three samples along the x axis.
\<close>

definition ex_pose :: "real \<Rightarrow> real \<Rightarrow> pose" where
  "ex_pose a b = \<lparr>pose_x = a, pose_y = b, pose_yaw = 0\<rparr>"

definition ex_traj :: trajectory where
  "ex_traj = [(0, ex_pose 0 0), (1, ex_pose 1 0), (2, ex_pose 2 0)]"

definition ex_executor :: executor where
  "ex_executor = init 1 1 None True (1 / 2) (25 / 1000) (Some ''lidar'') (1 / 4)"

definition ex_hallway :: "box hallway" where
  "ex_hallway = \<lparr>hallway_ref = 7, hallway_name = ''hall'', is_open = False,
     internal_collision_polygon = (2, 3, - 1, 1)\<rparr>"

definition ex_lidar :: lidar2d where
  "ex_lidar = \<lparr>angles = [0], max_range_m = 2\<rparr>"

definition ex_robot :: "box robot" where
  "ex_robot = \<lparr>robot_pose = ex_pose 0 0, battery_level = 100, manipulated_object = None,
     world = Some \<lparr>hallways = [ex_hallway]\<rparr>, fog_hallways = True,
     path_planner = Some PRMPlanner, recorded_closed_hallways = {},
     sensors = (\<lambda>n. if n = ''lidar'' then Some (Lidar2D ex_lidar) else None),
     last_nav_result = None\<rparr>"

text \<open>
  A run in progress: the controller has reached the trajectory time 1 of \<open>ex_traj\<close>.
\<close>

definition ex_run :: "box run" where
  "ex_run = \<lparr>exe = ex_executor\<lparr>current_traj_time := 1, following_path := True,
       traj := Assigned (Some ex_traj)\<rparr>,
     rob = ex_robot, evs = []\<rparr>"

text \<open>The Euclidean distance in the plane, for \<^verbatim>\<open>get_linear_distance\<close>.\<close>

definition ex_lin_dist :: "pose \<Rightarrow> pose \<Rightarrow> real" where
  "ex_lin_dist p q = sqrt ((pose_x p - pose_x q)\<^sup>2 + (pose_y p - pose_y q)\<^sup>2)"

text \<open>A path of two waypoints.\<close>

definition ex_path :: path where
  "ex_path = [ex_pose 0 0, ex_pose 2 0]"

text \<open>The executor and the robot before a run.\<close>

definition ex_start :: "box run" where
  "ex_start = \<lparr>exe = ex_executor, rob = ex_robot, evs = []\<rparr>"

text \<open>
  Trajectory functions for the examples: generation fails for a non-positive velocity or
  fewer than two poses, interpolation for fewer than two samples.
\<close>

definition ex_gen :: "path \<Rightarrow> real \<Rightarrow> real option \<Rightarrow> trajectory option" where
  "ex_gen p v w = (if v \<le> 0 \<or> length p < 2 then None else Some [(0, hd p), (2, last p)])"

definition ex_interp :: "trajectory \<Rightarrow> real \<Rightarrow> trajectory option" where
  "ex_interp tr d = (if length tr < 2 then None else Some ex_traj)"

text \<open>
  The states of the example run: after the precondition checks, after the start of the
  run, and in the loop at time \<open>t\<close> with battery \<open>b\<close> and loop events \<open>es\<close>.
\<close>

definition ex_checked :: "box run" where
  "ex_checked = \<lparr>exe = ex_executor\<lparr>traj := Assigned (Some [(0, ex_pose 0 0), (2, ex_pose 2 0)])\<rparr>,
     rob = ex_robot, evs = []\<rparr>"

definition ex_begun :: "box run" where
  "ex_begun = \<lparr>exe = ex_executor\<lparr>traj := Assigned (Some [(0, ex_pose 0 0), (2, ex_pose 2 0)]),
       following_path := True, validation_timer := Some ValidateRemainingPath,
       lidar_sensor_timer := Some DetectClosedHallway\<rparr>,
     rob = ex_robot,
     evs = [ThreadStart ValidateRemainingPath, ThreadStart DetectClosedHallway]\<rparr>"

definition ex_at :: "real \<Rightarrow> real \<Rightarrow> event list \<Rightarrow> box run" where
  "ex_at t b es = \<lparr>exe = (exe ex_begun)\<lparr>current_traj_time := t\<rparr>,
     rob = ex_robot\<lparr>robot_pose := ex_pose t 0, battery_level := b\<rparr>,
     evs = evs ex_begun @ es\<rparr>"

text \<open>
  Schedules: the validator aborts after the last tick; the tracker records the closed
  hallway after the planner check; the user cancels during the grace period; the user
  cancels, the validator aborts, or the tracker records the closed hallway, in the second
  tick.
\<close>

definition ex_late_abort :: "schedule" where
  "ex_late_abort = quiet\<lparr>before_planner_check := [SetAbort]\<rparr>"

definition ex_late_update :: "schedule" where
  "ex_late_update = quiet\<lparr>before_final_reset := [AddHallway (hallway_ref ex_hallway)]\<rparr>"

definition ex_late_cancel :: "schedule" where
  "ex_late_cancel = quiet\<lparr>before_return := [SetCancel]\<rparr>"

definition ex_cancel_at_1 :: "schedule" where
  "ex_cancel_at_1 = quiet\<lparr>before_abort_check := (\<lambda>i. []),
     before_cancel_check := (\<lambda>i. if i = 1 then [SetCancel] else [])\<rparr>"

definition ex_abort_at_1 :: "schedule" where
  "ex_abort_at_1 = quiet\<lparr>before_abort_check := (\<lambda>i. if i = 1 then [SetAbort] else []),
     before_cancel_check := (\<lambda>i. [])\<rparr>"

definition ex_update_at_1 :: "schedule" where
  "ex_update_at_1 = quiet\<lparr>before_abort_check :=
       (\<lambda>i. if i = 1 then [AddHallway (hallway_ref ex_hallway)] else []),
     before_cancel_check := (\<lambda>i. [])\<rparr>"

section \<open>Precondition failures\<close>

text \<open>
  Claim C6. A call of \<^verbatim>\<open>execute\<close> with no robot attached, with a path of fewer than
  two poses, or whose trajectory generation or interpolation fails returns
  \<^verbatim>\<open>PRECONDITION_FAILURE\<close>; it starts no thread and performs no other action on the
  robot (no events), it leaves the robot (pose, battery and all other fields) as it was,
  and it leaves the executor as it was: the five execution-state fields, the
  configuration and the thread handles. The only attribute written is \<^verbatim>\<open>self.traj\<close>,
  and only when the failure is in trajectory generation or interpolation.
\<close>

theorem precondition_failure_no_effect:
  assumes "ro = None \<or> num_poses path < 2
           \<or> gen path (linear_velocity e) (max_angular_velocity e) = None
           \<or> (\<exists>tr. gen path (linear_velocity e) (max_angular_velocity e) = Some tr
                   \<and> interp tr (dt e) = None)"
  shows "(\<exists>msg. result (execute ar gen interp lin_dist sch path realtime_factor battery_usage e ro)
                 = Inr \<lparr>status = PRECONDITION_FAILURE, message = msg\<rparr>)
       \<and> events (execute ar gen interp lin_dist sch path realtime_factor battery_usage e ro) = []
       \<and> final_rob (execute ar gen interp lin_dist sch path realtime_factor battery_usage e ro) = ro
       \<and> final_exe (execute ar gen interp lin_dist sch path realtime_factor battery_usage e ro)
           = (if ro = None \<or> num_poses path < 2 then e
              else e\<lparr>traj := Assigned (gen path (linear_velocity e) (max_angular_velocity e))\<rparr>)"
  using assms
  by (auto simp: execute_def preconditions_def precondition_failure_def Let_def split: option.splits)

text \<open>
  Witness for C6: a path of one waypoint, with a robot attached.
\<close>

theorem precondition_failure_no_effect_witness:
  "num_poses [ex_pose 0 0] < 2
   \<and> result (execute exact ex_gen ex_interp ex_lin_dist quiet [ex_pose 0 0] 1 1
               ex_executor (Some ex_robot))
       = Inr \<lparr>status = PRECONDITION_FAILURE, message = ''Not enough waypoints in path to execute.''\<rparr>
   \<and> events (execute exact ex_gen ex_interp ex_lin_dist quiet [ex_pose 0 0] 1 1
               ex_executor (Some ex_robot)) = []
   \<and> final_rob (execute exact ex_gen ex_interp ex_lin_dist quiet [ex_pose 0 0] 1 1
               ex_executor (Some ex_robot)) = Some ex_robot
   \<and> final_exe (execute exact ex_gen ex_interp ex_lin_dist quiet [ex_pose 0 0] 1 1
               ex_executor (Some ex_robot)) = ex_executor"
proof -
  have short: "num_poses [ex_pose 0 0] < 2" by (simp add: num_poses_def)
  have msg: "result (execute exact ex_gen ex_interp ex_lin_dist (quiet :: schedule) [ex_pose 0 0] 1 1
               ex_executor (Some ex_robot))
       = Inr \<lparr>status = PRECONDITION_FAILURE, message = ''Not enough waypoints in path to execute.''\<rparr>"
    by (simp add: execute_def preconditions_def precondition_failure_def num_poses_def)
  from short have hyp: "Some ex_robot = None \<or> num_poses [ex_pose 0 0] < 2
           \<or> ex_gen [ex_pose 0 0] (linear_velocity ex_executor) (max_angular_velocity ex_executor) = None
           \<or> (\<exists>tr. ex_gen [ex_pose 0 0] (linear_velocity ex_executor) (max_angular_velocity ex_executor) = Some tr
                   \<and> ex_interp tr (dt ex_executor) = None)"
    by blast
  show ?thesis
    using short msg
      precondition_failure_no_effect [where ar = exact and gen = ex_gen and interp = ex_interp
        and path = "[ex_pose 0 0]" and e = ex_executor and ro = "Some ex_robot"
        and lin_dist = ex_lin_dist and sch = quiet and realtime_factor = 1
        and battery_usage = 1, OF hyp]
    by simp
qed


section \<open>One pass of the path validator\<close>

lemma enum_break_first:
  "k < length ts \<Longrightarrow> ts ! k \<ge> cur \<Longrightarrow> (\<forall>j<k. ts ! j < cur) \<Longrightarrow>
   enum_break cur i idx ts = Some (i + k)"
proof (induction ts arbitrary: i idx k)
  case Nil
  then show ?case by simp
next
  case (Cons t ts)
  show ?case
  proof (cases k)
    case 0
    with Cons.prems show ?thesis by simp
  next
    case (Suc k')
    from Cons.prems Suc have "t < cur" by auto
    moreover have "enum_break cur (Suc i) (Some i) ts = Some (Suc i + k')"
      using Cons.prems Suc by (intro Cons.IH) auto
    ultimately show ?thesis using Suc by simp
  qed
qed

lemma enum_break_exhausted:
  "ts \<noteq> [] \<Longrightarrow> (\<forall>t\<in>set ts. t < cur) \<Longrightarrow> enum_break cur i idx ts = Some (i + length ts - 1)"
proof (induction ts arbitrary: i idx)
  case Nil
  then show ?case by simp
next
  case (Cons t ts)
  then show ?case by (cases ts) auto
qed

lemma validate_pass_exhausted:
  assumes "tr \<noteq> []" and "\<forall>t\<in>set (t_pts tr). t < current_traj_time (exe s)"
  shows "validate_pass collision_free tr s = Returned"
proof -
  have "enum_break (current_traj_time (exe s)) 0 None (t_pts tr) = Some (0 + length (t_pts tr) - 1)"
    using assms by (intro enum_break_exhausted) (auto simp: t_pts_def)
  then show ?thesis
    by (simp add: validate_pass_def Let_def num_points_def t_pts_def)
qed

text \<open>
  Claim C3. Let \<open>idx\<close> be the earliest index of the trajectory whose timestamp is at
  least \<^verbatim>\<open>current_traj_time\<close>. If \<open>idx\<close> is the last index, the pass returns and the
  loop ends with no effect. Otherwise the pass continues, and the state it leaves differs
  from the one it found at most in \<^verbatim>\<open>abort_execution\<close>, which is set exactly when the
  candidate path (the robot's pose followed by the trajectory poses from \<open>idx\<close> on) has
  more than two poses, the robot has a world, and the collision check of that candidate
  with the step distance and the robot's own recorded closed hallways fails.
\<close>

theorem validate_pass_spec:
  assumes "idx < num_points tr"
      and "t_pts tr ! idx \<ge> current_traj_time (exe s)"
      and "\<forall>j<idx. t_pts tr ! j < current_traj_time (exe s)"
  shows "validate_pass collision_free tr s =
     (if idx = num_points tr - 1 then Returned
      else Continue (s\<lparr>exe := (exe s)\<lparr>abort_execution :=
             abort_execution (exe s) \<or>
             (length (robot_pose (rob s) # drop idx (poses tr)) > 2 \<and> world (rob s) \<noteq> None \<and>
              \<not> collision_free (robot_pose (rob s) # drop idx (poses tr))
                  (validation_step_dist (exe s)) (fog_hallways (rob s))
                  (recorded_closed_hallways (rob s)))\<rparr>\<rparr>))"
proof -
  have "enum_break (current_traj_time (exe s)) 0 None (t_pts tr) = Some (0 + idx)"
    using assms by (intro enum_break_first) (auto simp: num_points_def t_pts_def)
  then show ?thesis
    by (simp add: validate_pass_def Let_def)
qed

text \<open>
  Witness for C3: at trajectory time 1 the earliest index is 1, the candidate has three
  poses and a failing collision check sets the flag; at time 2 the index is the last one
  and the pass returns.
\<close>

theorem validate_pass_spec_witness:
  "validate_pass (\<lambda>ps d f r. False) ex_traj ex_run
     = Continue (ex_run\<lparr>exe := (exe ex_run)\<lparr>abort_execution := True\<rparr>\<rparr>)
   \<and> validate_pass (\<lambda>ps d f r. False) ex_traj (ex_run\<lparr>exe := (exe ex_run)\<lparr>current_traj_time := 2\<rparr>\<rparr>)
     = Returned"
proof -
  have a: "(1::nat) < num_points ex_traj" and a2: "(2::nat) < num_points ex_traj"
    by (simp_all add: num_points_def ex_traj_def)
  have b: "t_pts ex_traj ! 1 \<ge> current_traj_time (exe ex_run)"
    by (simp add: t_pts_def ex_traj_def ex_run_def)
  have c: "\<forall>j<1. t_pts ex_traj ! j < current_traj_time (exe ex_run)"
    by (simp add: t_pts_def ex_traj_def ex_run_def)
  have b2: "t_pts ex_traj ! 2 \<ge> current_traj_time (exe (ex_run\<lparr>exe := (exe ex_run)\<lparr>current_traj_time := 2\<rparr>\<rparr>))"
    by (simp add: t_pts_def ex_traj_def ex_run_def)
  have c2: "\<forall>j<2. t_pts ex_traj ! j < current_traj_time (exe (ex_run\<lparr>exe := (exe ex_run)\<lparr>current_traj_time := 2\<rparr>\<rparr>))"
    by (simp add: t_pts_def ex_traj_def ex_run_def less_Suc_eq numeral_2_eq_2)
  have w: "world (rob ex_run) \<noteq> None" by (simp add: ex_run_def ex_robot_def)
  show ?thesis
    using validate_pass_spec [OF a b c, of "\<lambda>ps d f r. False"]
          validate_pass_spec [OF a2 b2 c2, of "\<lambda>ps d f r. False"] w
    by (simp add: num_points_def poses_def ex_traj_def)
qed

section \<open>One pass of the hallway tracker\<close>

lemma scan_find:
  "scan_hallways ixy p hs st =
     (case List.find (\<lambda>h. ixy (internal_collision_polygon h) (fst p) (snd p)
                          \<and> (is_open h = (hallway_ref h \<in> fst st))) hs of
        None \<Rightarrow> st
      | Some h \<Rightarrow> (if is_open h then fst st - {hallway_ref h} else insert (hallway_ref h) (fst st),
                   True))"
  by (induction hs) auto

lemma analyse_beams_eq:
  "analyse_beams ar cp mr acc bs =
     acc @ map (\<lambda>(a, l). (f_add ar (pose_x cp) (f_mul ar l (f_cos ar (f_add ar a (pose_yaw cp)))),
                          f_add ar (pose_y cp) (f_mul ar l (f_sin ar (f_add ar a (pose_yaw cp))))))
            (filter (\<lambda>(a, l). l < mr) bs)"
  by (induction bs arbitrary: acc) (auto simp: Let_def)

lemma scan_points_foldl:
  "scan_points ixy hs ps st = foldl (\<lambda>st p. scan_hallways ixy p hs st) st ps"
  by (induction ps arbitrary: st) auto

lemma scan_closed_then_open:
  "scan_hallways ixy p [h\<lparr>is_open := True\<rparr>]
     (scan_hallways ixy p [h\<lparr>is_open := False\<rparr>] (recorded, upd)) =
     (if ixy (internal_collision_polygon h) (fst p) (snd p)
      then (recorded - {hallway_ref h}, True) else (recorded, upd))"
  by auto

text \<open>
  Claim C4. In a pass of the tracker, the points analysed are the world-frame points
  (robot position plus range times cosine and sine of beam angle plus robot yaw, in the
  code's float operations) of exactly the beams whose range is strictly less than the
  maximum range, in beam order. For one point, the scan of the hallways finds the first
  hallway that contains the point and whose ground truth disagrees with the recorded set
  (open and recorded, or closed and not recorded); if there is none, the recorded set and
  the flag stay as they are; otherwise that hallway object is removed (open) or added
  (closed) and \<^verbatim>\<open>hallway_states_updated\<close> becomes true. So a point changes the recorded
  set by at most one hallway. A hallway that a point finds closed and later finds open
  is recorded by the first scan and removed by the second. The pass threads the recorded
  set and the flag through the points.
\<close>

theorem detect_pass_spec:
  "analyse_pose ar cur_pose lidar lens =
     map (\<lambda>(a, l). (f_add ar (pose_x cur_pose)
                       (f_mul ar l (f_cos ar (f_add ar a (pose_yaw cur_pose)))),
                    f_add ar (pose_y cur_pose)
                       (f_mul ar l (f_sin ar (f_add ar a (pose_yaw cur_pose))))))
         (filter (\<lambda>(a, l). l < max_range_m lidar) (zip (angles lidar) lens))
   \<and> scan_hallways ixy p hs (recorded, upd) =
       (case List.find (\<lambda>h. ixy (internal_collision_polygon h) (fst p) (snd p)
                             \<and> (is_open h = (hallway_ref h \<in> recorded))) hs of
          None \<Rightarrow> (recorded, upd)
        | Some h \<Rightarrow> (if is_open h then recorded - {hallway_ref h}
                      else insert (hallway_ref h) recorded, True))
   \<and> (\<exists>r. fst (scan_hallways ixy p hs (recorded, upd)) = recorded
         \<or> fst (scan_hallways ixy p hs (recorded, upd)) = insert r recorded
         \<or> fst (scan_hallways ixy p hs (recorded, upd)) = recorded - {r})
   \<and> scan_hallways ixy p [h\<lparr>is_open := True\<rparr>]
        (scan_hallways ixy p [h\<lparr>is_open := False\<rparr>] (recorded, upd)) =
       (if ixy (internal_collision_polygon h) (fst p) (snd p)
        then (recorded - {hallway_ref h}, True) else (recorded, upd))
   \<and> detect_pass ar ixy w lidar lens s =
       s\<lparr>rob := (rob s)\<lparr>recorded_closed_hallways :=
            fst (foldl (\<lambda>st p. scan_hallways ixy p (hallways w) st)
                   (recorded_closed_hallways (rob s), hallway_states_updated (exe s))
                   (analyse_pose ar (robot_pose (rob s)) lidar lens))\<rparr>,
         exe := (exe s)\<lparr>hallway_states_updated :=
            snd (foldl (\<lambda>st p. scan_hallways ixy p (hallways w) st)
                   (recorded_closed_hallways (rob s), hallway_states_updated (exe s))
                   (analyse_pose ar (robot_pose (rob s)) lidar lens))\<rparr>\<rparr>"
proof -
  have one: "analyse_pose ar cur_pose lidar lens =
     map (\<lambda>(a, l). (f_add ar (pose_x cur_pose)
                       (f_mul ar l (f_cos ar (f_add ar a (pose_yaw cur_pose)))),
                    f_add ar (pose_y cur_pose)
                       (f_mul ar l (f_sin ar (f_add ar a (pose_yaw cur_pose))))))
         (filter (\<lambda>(a, l). l < max_range_m lidar) (zip (angles lidar) lens))"
    by (simp add: analyse_pose_def analyse_beams_eq)
  have two: "scan_hallways ixy p hs (recorded, upd) =
       (case List.find (\<lambda>h. ixy (internal_collision_polygon h) (fst p) (snd p)
                             \<and> (is_open h = (hallway_ref h \<in> recorded))) hs of
          None \<Rightarrow> (recorded, upd)
        | Some h \<Rightarrow> (if is_open h then recorded - {hallway_ref h}
                      else insert (hallway_ref h) recorded, True))"
    using scan_find [of ixy p hs "(recorded, upd)"] by (simp split: option.splits)
  have three: "\<exists>r. fst (scan_hallways ixy p hs (recorded, upd)) = recorded
         \<or> fst (scan_hallways ixy p hs (recorded, upd)) = insert r recorded
         \<or> fst (scan_hallways ixy p hs (recorded, upd)) = recorded - {r}"
    unfolding two by (auto split: option.splits)
  have four: "detect_pass ar ixy w lidar lens s =
       s\<lparr>rob := (rob s)\<lparr>recorded_closed_hallways :=
            fst (foldl (\<lambda>st p. scan_hallways ixy p (hallways w) st)
                   (recorded_closed_hallways (rob s), hallway_states_updated (exe s))
                   (analyse_pose ar (robot_pose (rob s)) lidar lens))\<rparr>,
         exe := (exe s)\<lparr>hallway_states_updated :=
            snd (foldl (\<lambda>st p. scan_hallways ixy p (hallways w) st)
                   (recorded_closed_hallways (rob s), hallway_states_updated (exe s))
                   (analyse_pose ar (robot_pose (rob s)) lidar lens))\<rparr>\<rparr>"
    by (simp add: detect_pass_def Let_def scan_points_foldl)
  from one two three four scan_closed_then_open [of ixy p h recorded upd] show ?thesis
    by blast
qed

section \<open>The configuration record\<close>

text \<open>
  Claim C8. The dictionary of \<^verbatim>\<open>to_dict\<close> has exactly the nine keys \<open>type\<close>, \<open>dt\<close>,
  \<open>linear_velocity\<close>, \<open>max_angular_velocity\<close>, \<open>validate_during_execution\<close>,
  \<open>validation_dt\<close>, \<open>validation_step_dist\<close>, \<open>lidar_sensor_name\<close>,
  \<open>lidar_sensor_measurement_dt\<close>, with the value \<open>constant_velocity\<close> for \<open>type\<close> and the
  executor's configuration value for each other key. Deserializing the dictionary gives
  an executor whose configuration equals the original's and whose dictionary is the
  same dictionary.
\<close>

theorem to_dict_roundtrip:
  "map fst (to_dict e) =
     [''type'', ''dt'', ''linear_velocity'', ''max_angular_velocity'',
      ''validate_during_execution'', ''validation_dt'', ''validation_step_dist'',
      ''lidar_sensor_name'', ''lidar_sensor_measurement_dt'']
   \<and> map snd (to_dict e) =
     [PStr ''constant_velocity'', PFloat (dt e), PFloat (linear_velocity e),
      opt_float (max_angular_velocity e), PBool (validate_during_execution e),
      PFloat (validation_dt e), PFloat (validation_step_dist e),
      opt_str (lidar_sensor_name e), PFloat (lidar_sensor_measurement_dt e)]
   \<and> (\<exists>e'. from_dict (to_dict e) = Some e' \<and> to_dict e' = to_dict e
         \<and> dt e' = dt e \<and> linear_velocity e' = linear_velocity e
         \<and> max_angular_velocity e' = max_angular_velocity e
         \<and> validate_during_execution e' = validate_during_execution e
         \<and> validation_dt e' = validation_dt e
         \<and> validation_step_dist e' = validation_step_dist e
         \<and> lidar_sensor_name e' = lidar_sensor_name e
         \<and> lidar_sensor_measurement_dt e' = lidar_sensor_measurement_dt e)"
proof -
  have rt: "from_dict (to_dict e) = Some (init (dt e) (linear_velocity e) (max_angular_velocity e)
      (validate_during_execution e) (validation_dt e) (validation_step_dist e)
      (lidar_sensor_name e) (lidar_sensor_measurement_dt e))"
    by (simp add: from_dict_def to_dict_def kw_float_def kw_bool_def kw_opt_float_def
        kw_opt_str_def opt_float_def opt_str_def split: option.splits)
  show ?thesis
    unfolding rt by (simp add: to_dict_def init_def reset_state_def)
qed


section \<open>Writes of the other threads\<close>

lemma env_step_char:
  "env_step s a =
     s\<lparr>exe := (exe s)\<lparr>abort_execution := abort_execution (exe s) \<or> SetAbort = a,
                      cancel_execution := cancel_execution (exe s) \<or> SetCancel = a,
                      hallway_states_updated := hallway_states_updated (exe s) \<or> tracker_write a\<rparr>,
       rob := (rob s)\<lparr>recorded_closed_hallways := record_step (recorded_closed_hallways (rob s)) a\<rparr>\<rparr>"
  by (cases a) auto

lemma env_steps_char:
  "env_steps as s =
     s\<lparr>exe := (exe s)\<lparr>abort_execution := abort_execution (exe s) \<or> SetAbort \<in> set as,
                      cancel_execution := cancel_execution (exe s) \<or> SetCancel \<in> set as,
                      hallway_states_updated := hallway_states_updated (exe s) \<or> list_ex tracker_write as\<rparr>,
       rob := (rob s)\<lparr>recorded_closed_hallways := foldl record_step (recorded_closed_hallways (rob s)) as\<rparr>\<rparr>"
  unfolding env_steps_def
proof (induction as arbitrary: s)
  case Nil
  show ?case by simp
next
  case (Cons a as)
  show ?case
    unfolding foldl_Cons Cons.IH
    by (subst env_step_char) (auto simp: env_step_char)
qed

lemma env_steps_exe [simp]:
  "current_traj_time (exe (env_steps as s)) = current_traj_time (exe s)"
  "following_path (exe (env_steps as s)) = following_path (exe s)"
  "validate_during_execution (exe (env_steps as s)) = validate_during_execution (exe s)"
  "validation_timer (exe (env_steps as s)) = validation_timer (exe s)"
  "lidar_sensor_timer (exe (env_steps as s)) = lidar_sensor_timer (exe s)"
  "abort_execution (exe (env_steps as s)) = (abort_execution (exe s) \<or> SetAbort \<in> set as)"
  "cancel_execution (exe (env_steps as s)) = (cancel_execution (exe s) \<or> SetCancel \<in> set as)"
  "hallway_states_updated (exe (env_steps as s))
     = (hallway_states_updated (exe s) \<or> list_ex tracker_write as)"
  by (simp_all add: env_steps_char)

lemma env_steps_rob [simp]:
  "robot_pose (rob (env_steps as s)) = robot_pose (rob s)"
  "battery_level (rob (env_steps as s)) = battery_level (rob s)"
  "manipulated_object (rob (env_steps as s)) = manipulated_object (rob s)"
  "world (rob (env_steps as s)) = world (rob s)"
  "fog_hallways (rob (env_steps as s)) = fog_hallways (rob s)"
  "path_planner (rob (env_steps as s)) = path_planner (rob s)"
  "last_nav_result (rob (env_steps as s)) = last_nav_result (rob s)"
  by (simp_all add: env_steps_char)

lemma env_steps_evs [simp]: "evs (env_steps as s) = evs s"
  by (simp add: env_steps_char)

lemma no_write_iff_empty:
  "(SetAbort \<notin> set as \<and> SetCancel \<notin> set as \<and> \<not> list_ex tracker_write as) = (as = [])"
proof (cases as)
  case Nil
  then show ?thesis by simp
next
  case (Cons a rest)
  then show ?thesis by (cases a) auto
qed

lemma pose_updates_append: "pose_updates (xs @ ys) = pose_updates xs @ pose_updates ys"
  by (induction xs rule: pose_updates.induct) auto

section \<open>One pass through the main loop\<close>

lemma push_sample_exe [simp]:
  "exe (push_sample tp s) = (exe s)\<lparr>current_traj_time := fst tp\<rparr>"
  by (simp add: push_sample_def set_pose_def set_object_pose_def Let_def)

lemma push_sample_rob [simp]:
  "rob (push_sample tp s) =
     (rob s)\<lparr>robot_pose := snd tp,
             manipulated_object := map_option (\<lambda>_. snd tp) (manipulated_object (rob s))\<rparr>"
  by (cases "manipulated_object (rob s)")
     (simp_all add: push_sample_def set_pose_def set_object_pose_def Let_def)

lemma push_sample_evs [simp]:
  "evs (push_sample tp s) =
     evs s @ SetPose (snd tp) #
       (if manipulated_object (rob s) \<noteq> None then [SetObjectPose (snd tp)] else [])"
  by (simp add: push_sample_def set_pose_def set_object_pose_def Let_def)

lemma join_if_simps [simp]:
  "exe (join_if c h s) = exe s"
  "rob (join_if c h s) = rob s"
  "evs (join_if c h s) = evs s @ (case h of None \<Rightarrow> [] | Some t \<Rightarrow> if c then [ThreadJoin t] else [])"
  by (simp_all add: join_if_def split: option.splits)

text \<open>The four ways through the loop body.\<close>

lemma tick_cases [case_names abort cancel depleted continue]:
  assumes "abort_execution (exe (env_steps ea (push_sample tp s))) \<Longrightarrow>
           tick ar bu ld ea ec prev tp s =
             (join_if (fog_hallways (rob (env_steps ea (push_sample tp s))))
                (lidar_sensor_timer (exe (env_steps ea (push_sample tp s))))
                (join_if (validate_during_execution (exe (env_steps ea (push_sample tp s))))
                   (validation_timer (exe (env_steps ea (push_sample tp s))))
                   (env_steps ea (push_sample tp s))),
              Some (EXECUTION_FAILURE, ''Trajectory execution aborted.'')) \<Longrightarrow> P"
      and "\<not> abort_execution (exe (env_steps ea (push_sample tp s))) \<Longrightarrow>
           cancel_execution (exe (env_steps ec (env_steps ea (push_sample tp s)))) \<Longrightarrow>
           tick ar bu ld ea ec prev tp s =
             ((env_steps ec (env_steps ea (push_sample tp s)))
                \<lparr>exe := (exe (env_steps ec (env_steps ea (push_sample tp s))))
                          \<lparr>cancel_execution := False\<rparr>\<rparr>,
              Some (CANCELED, ''Trajectory execution canceled by user.'')) \<Longrightarrow> P"
      and "\<not> abort_execution (exe (env_steps ea (push_sample tp s))) \<Longrightarrow>
           \<not> cancel_execution (exe (env_steps ec (env_steps ea (push_sample tp s)))) \<Longrightarrow>
           f_sub ar (battery_level (rob s)) (f_mul ar bu (ld (snd tp) prev)) \<le> 0 \<Longrightarrow>
           tick ar bu ld ea ec prev tp s =
             ((env_steps ec (env_steps ea (push_sample tp s)))
                \<lparr>rob := (rob (env_steps ec (env_steps ea (push_sample tp s))))
                          \<lparr>battery_level := 0\<rparr>\<rparr>,
              Some (EXECUTION_FAILURE, ''Battery depleted while navigating.'')) \<Longrightarrow> P"
      and "\<not> abort_execution (exe (env_steps ea (push_sample tp s))) \<Longrightarrow>
           \<not> cancel_execution (exe (env_steps ec (env_steps ea (push_sample tp s)))) \<Longrightarrow>
           \<not> f_sub ar (battery_level (rob s)) (f_mul ar bu (ld (snd tp) prev)) \<le> 0 \<Longrightarrow>
           tick ar bu ld ea ec prev tp s =
             ((env_steps ec (env_steps ea (push_sample tp s)))
                \<lparr>rob := (rob (env_steps ec (env_steps ea (push_sample tp s))))
                          \<lparr>battery_level := f_sub ar (battery_level (rob s)) (f_mul ar bu (ld (snd tp) prev))\<rparr>\<rparr>,
              None) \<Longrightarrow> P"
  shows P
proof (cases "abort_execution (exe (env_steps ea (push_sample tp s)))")
  case True
  then show ?thesis using assms(1) by (simp add: tick_def Let_def)
next
  case na: False
  show ?thesis
  proof (cases "cancel_execution (exe (env_steps ec (env_steps ea (push_sample tp s))))")
    case True
    with na show ?thesis using assms(2) by (simp add: tick_def Let_def)
  next
    case nc: False
    show ?thesis
    proof (cases "f_sub ar (battery_level (rob s)) (f_mul ar bu (ld (snd tp) prev)) \<le> 0")
      case True
      with na nc show ?thesis using assms(3) by (simp add: tick_def Let_def)
    next
      case False
      with na nc show ?thesis using assms(4) by (simp add: tick_def Let_def)
    qed
  qed
qed

lemma tick_pushes:
  "robot_pose (rob (fst (tick ar bu ld ea ec prev tp s))) = snd tp
   \<and> current_traj_time (exe (fst (tick ar bu ld ea ec prev tp s))) = fst tp
   \<and> manipulated_object (rob (fst (tick ar bu ld ea ec prev tp s)))
       = map_option (\<lambda>_. snd tp) (manipulated_object (rob s))"
  by (cases rule: tick_cases [of ea tp s ar bu ld ec prev]) simp_all

lemma tick_stopped:
  assumes "abort_execution (exe (env_steps ea (push_sample tp s)))
           \<or> cancel_execution (exe (env_steps ec (env_steps ea (push_sample tp s))))"
  shows "battery_level (rob (fst (tick ar bu ld ea ec prev tp s))) = battery_level (rob s)
    \<and> (snd (tick ar bu ld ea ec prev tp s) = Some (EXECUTION_FAILURE, ''Trajectory execution aborted.'')
       \<or> snd (tick ar bu ld ea ec prev tp s) = Some (CANCELED, ''Trajectory execution canceled by user.''))"
  using assms by (cases rule: tick_cases [of ea tp s ar bu ld ec prev]) simp_all

lemma tick_pose_updates:
  "pose_updates (evs (fst (tick ar bu ld ea ec prev tp s))) = pose_updates (evs s) @ [snd tp]"
  by (cases rule: tick_cases [of ea tp s ar bu ld ec prev])
     (simp_all add: pose_updates_append split: option.splits)






lemma tick_never_success: "snd (tick ar bu ld ea ec prev tp s) \<noteq> Some (SUCCESS, m)"
  by (auto simp: tick_def Let_def)

lemma tick_abort:
  assumes "abort_execution (exe (env_steps ea (push_sample tp s)))"
  shows "snd (tick ar bu ld ea ec prev tp s) = Some (EXECUTION_FAILURE, ''Trajectory execution aborted.'')"
    and "validate_during_execution (exe s) \<Longrightarrow> validation_timer (exe s) = Some t \<Longrightarrow>
         ThreadJoin t \<in> set (evs (fst (tick ar bu ld ea ec prev tp s)))"
    and "fog_hallways (rob s) \<Longrightarrow> lidar_sensor_timer (exe s) = Some t \<Longrightarrow>
         ThreadJoin t \<in> set (evs (fst (tick ar bu ld ea ec prev tp s)))"
  using assms by (cases rule: tick_cases [of ea tp s ar bu ld ec prev]; simp)+

lemma tick_cancel:
  assumes "\<not> abort_execution (exe (env_steps ea (push_sample tp s)))"
      and "cancel_execution (exe (env_steps ec (env_steps ea (push_sample tp s))))"
  shows "snd (tick ar bu ld ea ec prev tp s) = Some (CANCELED, ''Trajectory execution canceled by user.'')"
    and "\<not> cancel_execution (exe (fst (tick ar bu ld ea ec prev tp s)))"
  using assms by (cases rule: tick_cases [of ea tp s ar bu ld ec prev]; simp)+

text \<open>
  Claim C9. In every pass through the loop body the sample's pose is pushed to the robot
  (and to the object it holds, if any) and \<^verbatim>\<open>current_traj_time\<close> is set to the
  sample's timestamp, whatever the pass does next. The flags are read in the state that
  results. When abort or cancel is observed in a pass, the pass ends the loop with the
  robot at that sample's pose and with the battery level it had before the pass: the
  drain of that pass is not applied.
\<close>

theorem sample_pushed_before_flag_checks:
  "robot_pose (rob (fst (tick ar bu ld ea ec prev tp s))) = snd tp
   \<and> current_traj_time (exe (fst (tick ar bu ld ea ec prev tp s))) = fst tp
   \<and> manipulated_object (rob (fst (tick ar bu ld ea ec prev tp s)))
       = map_option (\<lambda>_. snd tp) (manipulated_object (rob s))
   \<and> pose_updates (evs (fst (tick ar bu ld ea ec prev tp s))) = pose_updates (evs s) @ [snd tp]
   \<and> (abort_execution (exe (env_steps ea (push_sample tp s)))
        \<or> cancel_execution (exe (env_steps ec (env_steps ea (push_sample tp s))))
      \<longrightarrow> battery_level (rob (fst (tick ar bu ld ea ec prev tp s))) = battery_level (rob s)
          \<and> (snd (tick ar bu ld ea ec prev tp s)
                = Some (EXECUTION_FAILURE, ''Trajectory execution aborted.'')
             \<or> snd (tick ar bu ld ea ec prev tp s)
                = Some (CANCELED, ''Trajectory execution canceled by user.'')))"
  using tick_pushes [of ar bu ld ea ec prev tp s] tick_pose_updates [of ar bu ld ea ec prev tp s]
    tick_stopped [of ea tp s ec ar bu ld prev]
  by blast

text \<open>
  Witness for C9: the validator aborts during the second tick of the example run.
\<close>

theorem sample_pushed_before_flag_checks_witness:
  "abort_execution (exe (env_steps [SetAbort] (push_sample (1, ex_pose 1 0) ex_start)))
   \<and> robot_pose (rob (fst (tick exact 60 ex_lin_dist [SetAbort] [] (ex_pose 0 0) (1, ex_pose 1 0) ex_start)))
       = ex_pose 1 0
   \<and> current_traj_time (exe (fst (tick exact 60 ex_lin_dist [SetAbort] [] (ex_pose 0 0) (1, ex_pose 1 0) ex_start))) = 1
   \<and> battery_level (rob (fst (tick exact 60 ex_lin_dist [SetAbort] [] (ex_pose 0 0) (1, ex_pose 1 0) ex_start))) = 100
   \<and> snd (tick exact 60 ex_lin_dist [SetAbort] [] (ex_pose 0 0) (1, ex_pose 1 0) ex_start)
       = Some (EXECUTION_FAILURE, ''Trajectory execution aborted.'')"
proof -
  have ab: "abort_execution (exe (env_steps [SetAbort] (push_sample (1, ex_pose 1 0) ex_start)))"
    by (simp add: env_steps_def)
  have br: "snd (tick exact 60 ex_lin_dist [SetAbort] [] (ex_pose 0 0) (1, ex_pose 1 0) ex_start)
       = Some (EXECUTION_FAILURE, ''Trajectory execution aborted.'')"
    using ab by (simp add: tick_def Let_def)
  have b: "battery_level (rob ex_start) = 100" by (simp add: ex_start_def ex_robot_def)
  show ?thesis
    using ab br b
      sample_pushed_before_flag_checks [of exact 60 ex_lin_dist "[SetAbort]" "[]" "ex_pose 0 0"
        "(1, ex_pose 1 0)" ex_start]
    by simp
qed

section \<open>The main loop\<close>







lemma setup_kept_refl: "setup_kept s s"
  by (simp add: setup_kept_def)

lemma setup_kept_trans: "setup_kept s s' \<Longrightarrow> setup_kept s' s'' \<Longrightarrow> setup_kept s s''"
  by (auto simp: setup_kept_def)

lemma tick_setup_kept: "setup_kept s (fst (tick ar bu ld ea ec prev tp s))"
  by (cases rule: tick_cases [of ea tp s ar bu ld ec prev])
     (simp_all add: setup_kept_def split: option.splits)

lemma main_loop_setup_kept: "setup_kept s (fst (main_loop ar bu ld sch i prev samples s))"
proof (induction samples arbitrary: i prev s)
  case Nil
  show ?case by (simp add: setup_kept_refl)
next
  case (Cons tp rest)
  obtain s' br where t: "tick ar bu ld (before_abort_check sch i) (before_cancel_check sch i) prev tp s = (s', br)"
    by (cases "tick ar bu ld (before_abort_check sch i) (before_cancel_check sch i) prev tp s")
  have k: "setup_kept s s'"
    using tick_setup_kept [of s ar bu ld "before_abort_check sch i" "before_cancel_check sch i" prev tp] t
    by simp
  show ?case
  proof (cases br)
    case None
    with t setup_kept_trans [OF k Cons.IH [of s' "Suc i" "snd tp"]] show ?thesis by simp
  next
    case (Some a)
    with t k show ?thesis by (cases a) simp
  qed
qed

lemma loop_events_only:
  assumes "setup_kept s s'" and "\<not> loop_event x" and "x \<in> set (evs s')"
  shows "x \<in> set (evs s)"
proof -
  from assms(1) obtain new where n: "evs s' = evs s @ new" and l: "list_all loop_event new"
    by (auto simp: setup_kept_def)
  from l assms(2) have "x \<notin> set new" by (auto simp: list_all_iff)
  with n assms(3) show ?thesis by simp
qed

lemma setup_kept_start:
  "setup_kept s s' \<Longrightarrow> ThreadStart t \<in> set (evs s') \<Longrightarrow> ThreadStart t \<in> set (evs s)"
  using loop_events_only [of s s' "ThreadStart t"] by simp

lemma setup_kept_reset:
  "setup_kept s s' \<Longrightarrow> ResetPathPlanner \<in> set (evs s') \<Longrightarrow> ResetPathPlanner \<in> set (evs s)"
  using loop_events_only [of s s' ResetPathPlanner] by simp

lemma main_loop_append:
  "main_loop ar bu ld sch i prev pre s = (s1, SUCCESS, m) \<Longrightarrow>
   main_loop ar bu ld sch i prev (pre @ rest) s
     = main_loop ar bu ld sch (i + length pre) (if pre = [] then prev else snd (last pre)) rest s1"
proof (induction pre arbitrary: i prev s)
  case Nil
  then show ?case by simp
next
  case (Cons tp pre)
  obtain s' br where t: "tick ar bu ld (before_abort_check sch i) (before_cancel_check sch i) prev tp s = (s', br)"
    by (cases "tick ar bu ld (before_abort_check sch i) (before_cancel_check sch i) prev tp s")
  show ?case
  proof (cases br)
    case None
    from Cons.prems t None have "main_loop ar bu ld sch (Suc i) (snd tp) pre s' = (s1, SUCCESS, m)"
      by simp
    from Cons.IH [OF this] t None show ?thesis by simp
  next
    case (Some a)
    have "a \<noteq> (SUCCESS, snd a)"
      using tick_never_success [of ar bu ld "before_abort_check sch i" "before_cancel_check sch i" prev tp s "snd a"] t Some
      by simp
    with Cons.prems t Some show ?thesis by (cases a) simp
  qed
qed

lemma main_loop_success_poses:
  "main_loop ar bu ld sch i prev pre s = (s1, SUCCESS, m) \<Longrightarrow>
   pose_updates (evs s1) = pose_updates (evs s) @ map snd pre \<and> m = []"
proof (induction pre arbitrary: i prev s)
  case Nil
  then show ?case by simp
next
  case (Cons tp pre)
  obtain s' br where t: "tick ar bu ld (before_abort_check sch i) (before_cancel_check sch i) prev tp s = (s', br)"
    by (cases "tick ar bu ld (before_abort_check sch i) (before_cancel_check sch i) prev tp s")
  have pu: "pose_updates (evs s') = pose_updates (evs s) @ [snd tp]"
    using tick_pose_updates [of ar bu ld "before_abort_check sch i" "before_cancel_check sch i" prev tp s] t
    by simp
  show ?case
  proof (cases br)
    case None
    from Cons.prems t None have "main_loop ar bu ld sch (Suc i) (snd tp) pre s' = (s1, SUCCESS, m)"
      by simp
    from Cons.IH [OF this] pu show ?thesis by simp
  next
    case (Some a)
    have "a \<noteq> (SUCCESS, snd a)"
      using tick_never_success [of ar bu ld "before_abort_check sch i" "before_cancel_check sch i" prev tp s "snd a"] t Some
      by simp
    with Cons.prems t Some show ?thesis by (cases a) simp
  qed
qed

lemma main_loop_same_ticks:
  "before_abort_check sch' = before_abort_check sch \<Longrightarrow>
   before_cancel_check sch' = before_cancel_check sch \<Longrightarrow>
   main_loop ar bu ld sch' i prev samples s = main_loop ar bu ld sch i prev samples s"
  by (induction samples arbitrary: i prev s) auto

section \<open>The example run\<close>

lemma ex_pc:
  "preconditions ex_gen ex_interp ex_path ex_executor (Some ex_robot) = Inr (ex_traj, ex_checked)"
  by (simp add: preconditions_def ex_gen_def ex_interp_def ex_path_def ex_checked_def
      num_poses_def ex_executor_def init_def reset_state_def Let_def)

lemma ex_pc_split:
  "preconditions ex_gen ex_interp ex_path ex_executor (Some ex_robot)
     = Inr ([(0, ex_pose 0 0)] @ (1, ex_pose 1 0) # [(2, ex_pose 2 0)], ex_checked)"
  using ex_pc by (simp add: ex_traj_def)

lemma ex_start_run: "start_run ex_checked = ex_begun"
  by (simp add: start_run_def ex_checked_def ex_begun_def ex_executor_def ex_robot_def
      init_def reset_state_def Let_def)

lemma ex_at_begun: "ex_at 0 100 [] = ex_begun"
  by (simp add: ex_at_def ex_begun_def ex_executor_def ex_robot_def init_def reset_state_def)

lemma ex_at_fields [simp]:
  "abort_execution (exe (ex_at t b es)) = False"
  "cancel_execution (exe (ex_at t b es)) = False"
  "hallway_states_updated (exe (ex_at t b es)) = False"
  "battery_level (rob (ex_at t b es)) = b"
  "manipulated_object (rob (ex_at t b es)) = None"
  "path_planner (rob (ex_at t b es)) = Some PRMPlanner"
  "evs (ex_at t b es) = [ThreadStart ValidateRemainingPath, ThreadStart DetectClosedHallway] @ es"
  by (simp_all add: ex_at_def ex_begun_def ex_executor_def ex_robot_def init_def reset_state_def)

lemma ex_tick0:
  "tick exact bu ex_lin_dist [] [] (ex_pose 0 0) (0, ex_pose 0 0) ex_begun
     = (ex_at 0 100 [SetPose (ex_pose 0 0)], None)"
  by (simp add: tick_def push_sample_def set_pose_def env_steps_def Let_def ex_at_def
      ex_begun_def ex_executor_def ex_robot_def init_def reset_state_def ex_lin_dist_def ex_pose_def
      exact_def)

lemma ex_tick_quiet:
  "0 < b - bu * \<bar>t' - t\<bar> \<Longrightarrow>
   tick exact bu ex_lin_dist [] [] (ex_pose t 0) (t', ex_pose t' 0) (ex_at t b es)
     = (ex_at t' (b - bu * \<bar>t' - t\<bar>) (es @ [SetPose (ex_pose t' 0)]), None)"
  by (simp add: tick_def push_sample_def set_pose_def env_steps_def Let_def ex_at_def
      ex_begun_def ex_executor_def ex_robot_def init_def reset_state_def ex_lin_dist_def ex_pose_def
      exact_def)

lemma ex_reach:
  "main_loop exact bu ex_lin_dist (quiet\<lparr>before_abort_check := fa, before_cancel_check := fc\<rparr>)
     0 (snd (hd ([(0, ex_pose 0 0)] @ [(1, ex_pose 1 0)]))) [(0, ex_pose 0 0)] (start_run ex_checked)
   = (ex_at 0 100 [SetPose (ex_pose 0 0)], SUCCESS, [])" if "fa 0 = []" "fc 0 = []"
  using that ex_tick0 [of bu] by (simp add: ex_start_run)

lemma ex_quiet_loop:
  "bu < 50 \<Longrightarrow> main_loop exact bu ex_lin_dist quiet 0 (ex_pose 0 0) ex_traj ex_begun
     = (ex_at 2 (100 - 2 * bu)
          [SetPose (ex_pose 0 0), SetPose (ex_pose 1 0), SetPose (ex_pose 2 0)], SUCCESS, [])"
  using ex_tick0 [of bu] ex_tick_quiet [of 100 bu 1 0 "[SetPose (ex_pose 0 0)]"]
    ex_tick_quiet [of "100 - bu" bu 2 1 "[SetPose (ex_pose 0 0), SetPose (ex_pose 1 0)]"]
  by (simp add: ex_traj_def quiet_def)

section \<open>Whole runs\<close>

lemma start_run_events:
  "evs (start_run s0) =
     evs s0 @ (if validate_during_execution (exe s0) \<and> world (rob s0) \<noteq> None
               then [ThreadStart ValidateRemainingPath] else [])
            @ (if fog_hallways (rob s0) then [ThreadStart DetectClosedHallway] else [])"
  by (simp add: start_run_def Let_def reset_state_def)

lemma start_run_threads:
  assumes "evs s0 = []" and "ThreadStart t \<in> set (evs (start_run s0))"
  shows "(validate_during_execution (exe (start_run s0))
            \<and> validation_timer (exe (start_run s0)) = Some t)
       \<or> (fog_hallways (rob (start_run s0)) \<and> lidar_sensor_timer (exe (start_run s0)) = Some t)"
  using assms by (auto simp: start_run_def Let_def reset_state_def split: if_splits)

lemma start_run_robot:
  "rob (start_run s0) = rob s0"
  by (simp add: start_run_def Let_def)

lemma finish_run_result: "snd (finish_run sch st msg s) = \<lparr>status = st, message = msg\<rparr>"
  by (simp add: finish_run_def Let_def)

lemma finish_run_events:
  "evs (fst (finish_run sch st msg s)) =
     evs s @ (if hallway_states_updated (exe (env_steps (before_planner_check sch) s))
                 \<and> (path_planner (rob s) = Some PRMPlanner \<or> path_planner (rob s) = Some AStarPlanner)
              then [ResetPathPlanner] else [])"
  by (simp add: finish_run_def Let_def planner_check_def reset_path_planner_def)

lemma finish_run_robot:
  "robot_pose (rob (fst (finish_run sch st msg s))) = robot_pose (rob s)
   \<and> battery_level (rob (fst (finish_run sch st msg s))) = battery_level (rob s)
   \<and> manipulated_object (rob (fst (finish_run sch st msg s))) = manipulated_object (rob s)
   \<and> last_nav_result (rob (fst (finish_run sch st msg s))) = Some \<lparr>status = st, message = msg\<rparr>"
  by (simp add: finish_run_def Let_def planner_check_def reset_path_planner_def)

lemma finish_run_recorded:
  "recorded_closed_hallways (rob (fst (finish_run sch st msg s))) =
     foldl record_step (recorded_closed_hallways (rob s))
       (before_planner_check sch @ before_final_reset sch @ before_return sch)"
  by (simp add: finish_run_def Let_def planner_check_def reset_path_planner_def env_steps_char)

lemma finish_run_flags:
  "current_traj_time (exe (fst (finish_run sch st msg s))) = 0
   \<and> \<not> following_path (exe (fst (finish_run sch st msg s)))
   \<and> abort_execution (exe (fst (finish_run sch st msg s))) = (SetAbort \<in> set (before_return sch))
   \<and> cancel_execution (exe (fst (finish_run sch st msg s))) = (SetCancel \<in> set (before_return sch))
   \<and> hallway_states_updated (exe (fst (finish_run sch st msg s)))
       = list_ex tracker_write (before_return sch)"
  by (simp add: finish_run_def Let_def planner_check_def reset_path_planner_def reset_state_def)

lemma preconditions_Inr:
  assumes "preconditions gen interp path e ro = Inr (ti, s0)"
  shows "evs s0 = [] \<and> ro = Some (rob s0) \<and> 2 \<le> num_poses path
     \<and> exe s0 = e\<lparr>traj := Assigned (gen path (linear_velocity e) (max_angular_velocity e))\<rparr>"
  using assms
  by (auto simp: preconditions_def Let_def split: option.splits if_splits)

lemma follow_at_tick:
  assumes rf: "realtime_factor \<noteq> 0"
      and reach: "main_loop ar bu ld sch 0 (snd (hd (pre @ [tp]))) pre (start_run s0) = (s, SUCCESS, m)"
  shows "follow ar ld sch realtime_factor bu (pre @ tp # rest) s0 =
     (case main_loop ar bu ld sch (length pre) (if pre = [] then snd tp else snd (last pre)) (tp # rest) s of
        (s', st, msg) \<Rightarrow>
          \<lparr>final_exe = exe (fst (finish_run sch st msg s')),
           final_rob = Some (rob (fst (finish_run sch st msg s'))),
           events = evs (fst (finish_run sch st msg s')),
           result = Inr (snd (finish_run sch st msg s'))\<rparr>)"
proof -
  have hd_eq: "hd (pre @ tp # rest) = hd (pre @ [tp])" by (cases pre) simp_all
  have prev_eq: "(if pre = [] then snd (hd (pre @ [tp])) else snd (last pre))
                 = (if pre = [] then snd tp else snd (last pre))" by simp
  obtain tp0 tl where c: "pre @ tp # rest = tp0 # tl" by (cases pre) simp_all
  then have tp0: "tp0 = hd (pre @ [tp])" using hd_eq by (metis list.sel(1))
  have ml: "main_loop ar bu ld sch 0 (snd tp0) (pre @ tp # rest) (start_run s0)
        = main_loop ar bu ld sch (length pre) (if pre = [] then snd tp else snd (last pre)) (tp # rest) s"
    using main_loop_append [OF reach [folded tp0], of "tp # rest"] prev_eq tp0 by simp
  show ?thesis
    unfolding follow_def Let_def
    using rf ml c
    by (simp add: case_prod_beta split: list.splits)
qed

lemma follow_break:
  assumes rf: "realtime_factor \<noteq> 0"
      and reach: "main_loop ar bu ld sch 0 (snd (hd (pre @ [tp]))) pre (start_run s0) = (s, SUCCESS, m)"
      and br: "snd (tick ar bu ld (before_abort_check sch (length pre)) (before_cancel_check sch (length pre))
                 (if pre = [] then snd tp else snd (last pre)) tp s) = Some (st, msg)"
  shows "follow ar ld sch realtime_factor bu (pre @ tp # rest) s0 =
     \<lparr>final_exe = exe (fst (finish_run sch st msg
          (fst (tick ar bu ld (before_abort_check sch (length pre)) (before_cancel_check sch (length pre))
                 (if pre = [] then snd tp else snd (last pre)) tp s)))),
      final_rob = Some (rob (fst (finish_run sch st msg
          (fst (tick ar bu ld (before_abort_check sch (length pre)) (before_cancel_check sch (length pre))
                 (if pre = [] then snd tp else snd (last pre)) tp s))))),
      events = evs (fst (finish_run sch st msg
          (fst (tick ar bu ld (before_abort_check sch (length pre)) (before_cancel_check sch (length pre))
                 (if pre = [] then snd tp else snd (last pre)) tp s)))),
      result = Inr \<lparr>status = st, message = msg\<rparr>\<rparr>"
proof -
  obtain s' where t: "tick ar bu ld (before_abort_check sch (length pre)) (before_cancel_check sch (length pre))
                 (if pre = [] then snd tp else snd (last pre)) tp s = (s', Some (st, msg))"
    using br by (cases "tick ar bu ld (before_abort_check sch (length pre)) (before_cancel_check sch (length pre))
                 (if pre = [] then snd tp else snd (last pre)) tp s") auto
  have "main_loop ar bu ld sch (length pre) (if pre = [] then snd tp else snd (last pre)) (tp # rest) s
          = (s', st, msg)"
    using t by simp
  with follow_at_tick [OF rf reach, of rest] t show ?thesis
    by (simp add: finish_run_result)
qed

lemma follow_normal:
  assumes "realtime_factor \<noteq> 0" and "ti \<noteq> []"
  shows "follow ar ld sch realtime_factor bu ti s0 =
     \<lparr>final_exe = exe (fst (finish_run sch
          (fst (snd (main_loop ar bu ld sch 0 (snd (hd ti)) ti (start_run s0))))
          (snd (snd (main_loop ar bu ld sch 0 (snd (hd ti)) ti (start_run s0))))
          (fst (main_loop ar bu ld sch 0 (snd (hd ti)) ti (start_run s0))))),
      final_rob = Some (rob (fst (finish_run sch
          (fst (snd (main_loop ar bu ld sch 0 (snd (hd ti)) ti (start_run s0))))
          (snd (snd (main_loop ar bu ld sch 0 (snd (hd ti)) ti (start_run s0))))
          (fst (main_loop ar bu ld sch 0 (snd (hd ti)) ti (start_run s0)))))),
      events = evs (fst (finish_run sch
          (fst (snd (main_loop ar bu ld sch 0 (snd (hd ti)) ti (start_run s0))))
          (snd (snd (main_loop ar bu ld sch 0 (snd (hd ti)) ti (start_run s0))))
          (fst (main_loop ar bu ld sch 0 (snd (hd ti)) ti (start_run s0))))),
      result = Inr \<lparr>status = fst (snd (main_loop ar bu ld sch 0 (snd (hd ti)) ti (start_run s0))),
                    message = snd (snd (main_loop ar bu ld sch 0 (snd (hd ti)) ti (start_run s0)))\<rparr>\<rparr>"
proof -
  obtain tp0 tl where c: "ti = tp0 # tl" using assms(2) by (cases ti) auto
  obtain s' st msg where ml: "main_loop ar bu ld sch 0 (snd tp0) (tp0 # tl) (start_run s0) = (s', st, msg)"
    by (cases "main_loop ar bu ld sch 0 (snd tp0) (tp0 # tl) (start_run s0)") auto
  obtain s'' res where fr: "finish_run sch st msg s' = (s'', res)"
    by (cases "finish_run sch st msg s'") auto
  have res: "res = \<lparr>status = st, message = msg\<rparr>"
    using finish_run_result [of sch st msg s'] fr by simp
  show ?thesis
    unfolding follow_def c
    using assms(1) ml fr res by (simp add: Let_def)
qed

lemma follow_result:
  "result (follow ar ld sch realtime_factor bu ti s0) =
     (if realtime_factor = 0 then Inl ZeroDivisionError
      else if ti = [] then Inl IndexError
      else Inr \<lparr>status = fst (snd (main_loop ar bu ld sch 0 (snd (hd ti)) ti (start_run s0))),
                message = snd (snd (main_loop ar bu ld sch 0 (snd (hd ti)) ti (start_run s0)))\<rparr>)"
proof (cases "realtime_factor = 0 \<or> ti = []")
  case True
  then show ?thesis by (auto simp: follow_def raised_def Let_def)
next
  case False
  then show ?thesis using follow_normal [of realtime_factor ti ar ld sch bu s0] by simp
qed

lemma reached_run:
  assumes e0: "evs s0 = []"
      and reach: "main_loop ar bu ld sch 0 prev pre (start_run s0) = (s, SUCCESS, m)"
  shows "setup_kept (start_run s0) s" and "pose_updates (evs s) = map snd pre"
proof -
  show "setup_kept (start_run s0) s"
    using main_loop_setup_kept [of "start_run s0" ar bu ld sch 0 prev pre] reach by simp
  have "pose_updates (evs (start_run s0)) = []"
    using e0 by (simp add: start_run_events)
  with main_loop_success_poses [OF reach] show "pose_updates (evs s) = map snd pre" by simp
qed

lemma no_reset_without_run:
  assumes "(\<exists>out. preconditions gen interp path e ro = Inl out) \<or> realtime_factor = 0
           \<or> (\<exists>s0. preconditions gen interp path e ro = Inr ([], s0))"
  shows "ResetPathPlanner \<notin> set (events (execute ar gen interp ld sch path realtime_factor bu e ro))"
proof (cases "preconditions gen interp path e ro")
  case (Inl out)
  then have "events out = []"
    by (auto simp: preconditions_def precondition_failure_def Let_def split: option.splits if_splits)
  with Inl show ?thesis by (simp add: execute_def)
next
  case (Inr p)
  obtain ti s0 where p: "p = (ti, s0)" by (cases p)
  have e0: "evs s0 = []" using preconditions_Inr [OF Inr [unfolded p]] by simp
  from assms Inr p have "realtime_factor = 0 \<or> ti = []" by auto
  then have "events (follow ar ld sch realtime_factor bu ti s0) = evs (start_run s0)"
    by (auto simp: follow_def raised_def Let_def)
  with Inr p e0 show ?thesis by (simp add: execute_def start_run_events)
qed

lemma tick_flag:
  "hallway_states_updated (exe (fst (tick ar bu ld ea ec prev tp s))) =
     (hallway_states_updated (exe s) \<or> list_ex tracker_write ea
      \<or> (\<not> abort_execution (exe (env_steps ea (push_sample tp s))) \<and> list_ex tracker_write ec))"
  by (cases rule: tick_cases [of ea tp s ar bu ld ec prev]) auto

lemma main_loop_flag_mono:
  "hallway_states_updated (exe s) \<Longrightarrow>
   hallway_states_updated (exe (fst (main_loop ar bu ld sch i prev samples s)))"
proof (induction samples arbitrary: i prev s)
  case Nil
  then show ?case by simp
next
  case (Cons tp rest)
  obtain s' br where t: "tick ar bu ld (before_abort_check sch i) (before_cancel_check sch i) prev tp s = (s', br)"
    by (cases "tick ar bu ld (before_abort_check sch i) (before_cancel_check sch i) prev tp s")
  have f: "hallway_states_updated (exe s')"
    using tick_flag [of ar bu ld "before_abort_check sch i" "before_cancel_check sch i" prev tp s]
      Cons.prems t by simp
  show ?case
  proof (cases br)
    case None
    with t Cons.IH [OF f, of "Suc i" "snd tp"] show ?thesis by simp
  next
    case (Some a)
    with t f show ?thesis by (cases a) simp
  qed
qed

lemma main_loop_head_flag:
  assumes "list_ex tracker_write (before_abort_check sch i)"
  shows "hallway_states_updated (exe (fst (main_loop ar bu ld sch i prev (tp # rest) s)))"
proof -
  obtain s' br where t: "tick ar bu ld (before_abort_check sch i) (before_cancel_check sch i) prev tp s = (s', br)"
    by (cases "tick ar bu ld (before_abort_check sch i) (before_cancel_check sch i) prev tp s")
  have f: "hallway_states_updated (exe s')"
    using tick_flag [of ar bu ld "before_abort_check sch i" "before_cancel_check sch i" prev tp s]
      assms t by simp
  show ?thesis
  proof (cases br)
    case None
    with t main_loop_flag_mono [OF f, of ar bu ld sch "Suc i" "snd tp" rest] show ?thesis by simp
  next
    case (Some a)
    with t f show ?thesis by (cases a) simp
  qed
qed

lemma tick_join:
  assumes "ThreadJoin t \<in> set (evs (fst (tick ar bu ld ea ec prev tp s)))"
  shows "ThreadJoin t \<in> set (evs s)
     \<or> snd (tick ar bu ld ea ec prev tp s) = Some (EXECUTION_FAILURE, ''Trajectory execution aborted.'')"
  using assms
  by (cases rule: tick_cases [of ea tp s ar bu ld ec prev]) (auto split: if_splits)

lemma main_loop_join:
  "ThreadJoin t \<in> set (evs (fst (main_loop ar bu ld sch i prev samples s))) \<Longrightarrow>
   ThreadJoin t \<in> set (evs s)
   \<or> snd (main_loop ar bu ld sch i prev samples s)
        = (EXECUTION_FAILURE, ''Trajectory execution aborted.'')"
proof (induction samples arbitrary: i prev s)
  case Nil
  then show ?case by simp
next
  case (Cons tp rest)
  obtain s' br where t: "tick ar bu ld (before_abort_check sch i) (before_cancel_check sch i) prev tp s = (s', br)"
    by (cases "tick ar bu ld (before_abort_check sch i) (before_cancel_check sch i) prev tp s")
  note tj = tick_join [of t ar bu ld "before_abort_check sch i" "before_cancel_check sch i" prev tp s]
  show ?case
  proof (cases br)
    case None
    from Cons.prems t None
    have "ThreadJoin t \<in> set (evs (fst (main_loop ar bu ld sch (Suc i) (snd tp) rest s')))"
      by simp
    from Cons.IH [OF this] have "ThreadJoin t \<in> set (evs s')
       \<or> snd (main_loop ar bu ld sch (Suc i) (snd tp) rest s')
            = (EXECUTION_FAILURE, ''Trajectory execution aborted.'')" .
    with tj t None show ?thesis by auto
  next
    case (Some a)
    with Cons.prems t tj show ?thesis by (cases a) auto
  qed
qed

lemma follow_events:
  "events (follow ar ld sch realtime_factor bu ti s0) =
     (if realtime_factor = 0 \<or> ti = [] then evs (start_run s0)
      else evs (fst (main_loop ar bu ld sch 0 (snd (hd ti)) ti (start_run s0))) @
        (if hallway_states_updated (exe (env_steps (before_planner_check sch)
               (fst (main_loop ar bu ld sch 0 (snd (hd ti)) ti (start_run s0)))))
            \<and> (path_planner (rob s0) = Some PRMPlanner \<or> path_planner (rob s0) = Some AStarPlanner)
         then [ResetPathPlanner] else []))"
proof (cases "realtime_factor = 0 \<or> ti = []")
  case True
  then show ?thesis by (auto simp: follow_def raised_def Let_def)
next
  case False
  have "path_planner (rob (fst (main_loop ar bu ld sch 0 (snd (hd ti)) ti (start_run s0))))
          = path_planner (rob s0)"
    using main_loop_setup_kept [of "start_run s0" ar bu ld sch 0 "snd (hd ti)" ti]
    by (simp add: setup_kept_def start_run_robot)
  with False show ?thesis
    using follow_normal [of realtime_factor ti ar ld sch bu s0]
    by (simp add: finish_run_events)
qed

lemma preconditions_Inl:
  "preconditions gen interp path e ro = Inl out \<Longrightarrow> events out = []"
  by (auto simp: preconditions_def precondition_failure_def Let_def split: option.splits if_splits)

lemma joins_only_after_abort:
  assumes "ThreadJoin t \<in> set (events (execute ar gen interp ld sch path realtime_factor bu e ro))"
  shows "result (execute ar gen interp ld sch path realtime_factor bu e ro)
           = Inr \<lparr>status = EXECUTION_FAILURE, message = ''Trajectory execution aborted.''\<rparr>"
proof (cases "preconditions gen interp path e ro")
  case (Inl out)
  with assms preconditions_Inl [OF Inl] show ?thesis by (simp add: execute_def)
next
  case (Inr p)
  obtain ti s0 where p: "p = (ti, s0)" by (cases p)
  have e0: "evs s0 = []" using preconditions_Inr [OF Inr [unfolded p]] by simp
  have ex: "execute ar gen interp ld sch path realtime_factor bu e ro
              = follow ar ld sch realtime_factor bu ti s0"
    using Inr p by (simp add: execute_def)
  have ns: "ThreadJoin t \<notin> set (evs (start_run s0))"
    using e0 by (simp add: start_run_events)
  show ?thesis
  proof (cases "realtime_factor = 0 \<or> ti = []")
    case True
    with assms ns show ?thesis unfolding ex follow_events by simp
  next
    case False
    with assms have "ThreadJoin t \<in> set (evs (fst (main_loop ar bu ld sch 0 (snd (hd ti)) ti (start_run s0))))"
      unfolding ex follow_events by (auto split: if_splits)
    from main_loop_join [OF this] ns
    have "snd (main_loop ar bu ld sch 0 (snd (hd ti)) ti (start_run s0))
            = (EXECUTION_FAILURE, ''Trajectory execution aborted.'')" by simp
    with False show ?thesis unfolding ex follow_result by simp
  qed
qed

lemma late_writes_unseen:
  "result (execute ar gen interp ld
             (sch\<lparr>before_planner_check := a, before_final_reset := b, before_return := c\<rparr>)
             path realtime_factor bu e ro)
     = result (execute ar gen interp ld sch path realtime_factor bu e ro)
   \<and> pose_updates (events (execute ar gen interp ld
             (sch\<lparr>before_planner_check := a, before_final_reset := b, before_return := c\<rparr>)
             path realtime_factor bu e ro))
     = pose_updates (events (execute ar gen interp ld sch path realtime_factor bu e ro))
   \<and> (ThreadJoin t \<in> set (events (execute ar gen interp ld
             (sch\<lparr>before_planner_check := a, before_final_reset := b, before_return := c\<rparr>)
             path realtime_factor bu e ro)))
     = (ThreadJoin t \<in> set (events (execute ar gen interp ld sch path realtime_factor bu e ro)))"
proof (cases "preconditions gen interp path e ro")
  case (Inl out)
  then show ?thesis by (simp add: execute_def)
next
  case (Inr p)
  obtain ti s0 where p: "p = (ti, s0)" by (cases p)
  have same: "\<And>i prev samples s.
      main_loop ar bu ld (sch\<lparr>before_planner_check := a, before_final_reset := b, before_return := c\<rparr>)
        i prev samples s = main_loop ar bu ld sch i prev samples s"
    by (rule main_loop_same_ticks) simp_all
  show ?thesis
    using Inr p
    by (simp add: execute_def follow_result follow_events same pose_updates_append)
qed

lemma ex_loop_quiet_ticks:
  assumes "before_abort_check sch = (\<lambda>i. [])" and "before_cancel_check sch = (\<lambda>i. [])"
  shows "main_loop exact 0 ex_lin_dist sch 0 (snd (hd ex_traj)) ex_traj (start_run ex_checked)
     = (ex_at 2 100 [SetPose (ex_pose 0 0), SetPose (ex_pose 1 0), SetPose (ex_pose 2 0)],
        SUCCESS, [])"
proof -
  have "main_loop exact 0 ex_lin_dist sch 0 (snd (hd ex_traj)) ex_traj (start_run ex_checked)
          = main_loop exact 0 ex_lin_dist quiet 0 (snd (hd ex_traj)) ex_traj (start_run ex_checked)"
    using assms by (intro main_loop_same_ticks) (simp_all add: quiet_def)
  also have "\<dots> = main_loop exact 0 ex_lin_dist quiet 0 (ex_pose 0 0) ex_traj ex_begun"
    by (simp add: ex_start_run ex_traj_def)
  finally show ?thesis using ex_quiet_loop [of 0] by simp
qed

lemma ex_execute_quiet_ticks:
  assumes "before_abort_check sch = (\<lambda>i. [])" and "before_cancel_check sch = (\<lambda>i. [])"
  shows "execute exact ex_gen ex_interp ex_lin_dist sch ex_path 1 0 ex_executor (Some ex_robot) =
     \<lparr>final_exe = exe (fst (finish_run sch SUCCESS []
          (ex_at 2 100 [SetPose (ex_pose 0 0), SetPose (ex_pose 1 0), SetPose (ex_pose 2 0)]))),
      final_rob = Some (rob (fst (finish_run sch SUCCESS []
          (ex_at 2 100 [SetPose (ex_pose 0 0), SetPose (ex_pose 1 0), SetPose (ex_pose 2 0)])))),
      events = evs (fst (finish_run sch SUCCESS []
          (ex_at 2 100 [SetPose (ex_pose 0 0), SetPose (ex_pose 1 0), SetPose (ex_pose 2 0)]))),
      result = Inr \<lparr>status = SUCCESS, message = []\<rparr>\<rparr>"
proof -
  have ne: "ex_traj \<noteq> []" by (simp add: ex_traj_def)
  have rf: "(1::real) \<noteq> 0" by simp
  show ?thesis
    unfolding execute_def ex_pc
    using follow_normal [OF rf ne, of exact ex_lin_dist sch 0 ex_checked] ex_loop_quiet_ticks [OF assms]
    by simp
qed

section \<open>Battery\<close>




section \<open>Cancellation\<close>

text \<open>
  In the theorems on whole runs, a call passes its precondition checks with the
  interpolated trajectory \<open>pre @ tp # rest\<close>, and
  \<open>main_loop \<dots> pre (start_run s0) = (s, SUCCESS, [])\<close> says that the loop passes the
  samples \<open>pre\<close> without \<^verbatim>\<open>break\<close> and enters the tick of the sample \<open>tp\<close>, tick
  number \<open>length pre\<close>, in the state \<open>s\<close>.
\<close>

text \<open>
  Claim C5. When \<^verbatim>\<open>cancel_execution\<close> is observed set in a tick in which
  \<^verbatim>\<open>abort_execution\<close> is not observed set, the returned status is \<^verbatim>\<open>CANCELED\<close>, the
  tick leaves the flag cleared, the poses pushed to the robot in the whole call are those
  of the samples up to and including that tick's, and the robot is left at that tick's
  pose. The flag is set when \<^verbatim>\<open>execute\<close> returns only if the user sets it again after
  the final reset.
\<close>

theorem cancel_observed:
  assumes pc: "preconditions gen interp path e ro = Inr (pre @ tp # rest, s0)"
      and rf: "realtime_factor \<noteq> 0"
      and reach: "main_loop ar bu ld sch 0 (snd (hd (pre @ [tp]))) pre (start_run s0) = (s, SUCCESS, [])"
      and na: "\<not> abort_execution (exe (env_steps (before_abort_check sch (length pre)) (push_sample tp s)))"
      and ca: "cancel_execution (exe (env_steps (before_cancel_check sch (length pre))
                 (env_steps (before_abort_check sch (length pre)) (push_sample tp s))))"
  shows "result (execute ar gen interp ld sch path realtime_factor bu e ro)
           = Inr \<lparr>status = CANCELED, message = ''Trajectory execution canceled by user.''\<rparr>
       \<and> \<not> cancel_execution (exe (fst (tick ar bu ld (before_abort_check sch (length pre))
                 (before_cancel_check sch (length pre)) prev tp s)))
       \<and> pose_updates (events (execute ar gen interp ld sch path realtime_factor bu e ro))
           = map snd (pre @ [tp])
       \<and> (\<exists>r'. final_rob (execute ar gen interp ld sch path realtime_factor bu e ro) = Some r'
               \<and> robot_pose r' = snd tp)
       \<and> cancel_execution (final_exe (execute ar gen interp ld sch path realtime_factor bu e ro))
           = (SetCancel \<in> set (before_return sch))"
proof -
  let ?prev = "if pre = [] then snd tp else snd (last pre)"
  let ?t = "tick ar bu ld (before_abort_check sch (length pre)) (before_cancel_check sch (length pre)) ?prev tp s"
  let ?msg = "''Trajectory execution canceled by user.''"
  have e0: "evs s0 = []" using preconditions_Inr [OF pc] by simp
  have ex: "execute ar gen interp ld sch path realtime_factor bu e ro
              = follow ar ld sch realtime_factor bu (pre @ tp # rest) s0"
    using pc by (simp add: execute_def)
  have br: "snd ?t = Some (CANCELED, ?msg)" using tick_cancel(1) [OF na ca] .
  note fb = follow_break [OF rf reach br, of rest]
  have pu: "pose_updates (evs (fst ?t)) = map snd (pre @ [tp])"
    using tick_pose_updates [of ar bu ld "before_abort_check sch (length pre)"
        "before_cancel_check sch (length pre)" ?prev tp s]
      reached_run(2) [OF e0 reach] by simp
  have r1: "result (execute ar gen interp ld sch path realtime_factor bu e ro)
           = Inr \<lparr>status = CANCELED, message = ?msg\<rparr>"
    unfolding ex fb by simp
  have r2: "\<not> cancel_execution (exe (fst (tick ar bu ld (before_abort_check sch (length pre))
                 (before_cancel_check sch (length pre)) prev tp s)))"
    using tick_cancel(2) [OF na ca] .
  have r3: "pose_updates (events (execute ar gen interp ld sch path realtime_factor bu e ro))
           = map snd (pre @ [tp])"
    unfolding ex fb using pu by (simp add: finish_run_events pose_updates_append)
  have r4: "\<exists>r'. final_rob (execute ar gen interp ld sch path realtime_factor bu e ro) = Some r'
               \<and> robot_pose r' = snd tp"
    unfolding ex fb
    using tick_pushes [of ar bu ld "before_abort_check sch (length pre)"
        "before_cancel_check sch (length pre)" ?prev tp s]
    by (simp add: finish_run_robot)
  have r5: "cancel_execution (final_exe (execute ar gen interp ld sch path realtime_factor bu e ro))
           = (SetCancel \<in> set (before_return sch))"
    unfolding ex fb by (simp add: finish_run_flags)
  from r1 r2 r3 r4 r5 show ?thesis by blast
qed

text \<open>
  Witness for C5: the user cancels before the cancel check of the second tick.
\<close>

theorem cancel_observed_witness:
  "result (execute exact ex_gen ex_interp ex_lin_dist ex_cancel_at_1 ex_path 1 0 ex_executor (Some ex_robot))
     = Inr \<lparr>status = CANCELED, message = ''Trajectory execution canceled by user.''\<rparr>
   \<and> pose_updates (events (execute exact ex_gen ex_interp ex_lin_dist ex_cancel_at_1 ex_path 1 0
        ex_executor (Some ex_robot))) = [ex_pose 0 0, ex_pose 1 0]
   \<and> map_option robot_pose (final_rob (execute exact ex_gen ex_interp ex_lin_dist ex_cancel_at_1 ex_path 1 0
        ex_executor (Some ex_robot))) = Some (ex_pose 1 0)
   \<and> \<not> cancel_execution (final_exe (execute exact ex_gen ex_interp ex_lin_dist ex_cancel_at_1 ex_path 1 0
        ex_executor (Some ex_robot)))"
proof -
  have rf: "(1::real) \<noteq> 0" by simp
  have reach: "main_loop exact 0 ex_lin_dist ex_cancel_at_1 0
      (snd (hd ([(0, ex_pose 0 0)] @ [(1, ex_pose 1 0)]))) [(0, ex_pose 0 0)] (start_run ex_checked)
      = (ex_at 0 100 [SetPose (ex_pose 0 0)], SUCCESS, [])"
    unfolding ex_cancel_at_1_def by (rule ex_reach) simp_all
  have na: "\<not> abort_execution (exe (env_steps
      (before_abort_check ex_cancel_at_1 (length [(0::real, ex_pose 0 0)]))
      (push_sample (1, ex_pose 1 0) (ex_at 0 100 [SetPose (ex_pose 0 0)]))))"
    by (simp add: ex_cancel_at_1_def quiet_def)
  have ca: "cancel_execution (exe (env_steps
      (before_cancel_check ex_cancel_at_1 (length [(0::real, ex_pose 0 0)]))
      (env_steps (before_abort_check ex_cancel_at_1 (length [(0::real, ex_pose 0 0)]))
        (push_sample (1, ex_pose 1 0) (ex_at 0 100 [SetPose (ex_pose 0 0)])))))"
    by (simp add: ex_cancel_at_1_def quiet_def)
  have br: "before_return ex_cancel_at_1 = []" by (simp add: ex_cancel_at_1_def quiet_def)
  show ?thesis
    using cancel_observed [OF ex_pc_split rf reach na ca, of "ex_pose 0 0"] br
    by auto
qed

section \<open>Abort\<close>

text \<open>
  Claim C1, as stated, fails: the controller reads \<^verbatim>\<open>abort_execution\<close> once per
  tick, so an abort that the validator raises after the last of these reads changes
  neither the status nor the exit of the loop, and no thread is joined. In the example
  the validator is started, aborts after the last tick, the result is \<^verbatim>\<open>SUCCESS\<close>,
  and the validator is not joined.
\<close>

theorem abort_after_last_check_counterexample:
  "SetAbort \<in> set (before_planner_check ex_late_abort)
   \<and> result (execute exact ex_gen ex_interp ex_lin_dist ex_late_abort ex_path 1 0 ex_executor (Some ex_robot))
       = Inr \<lparr>status = SUCCESS, message = []\<rparr>
   \<and> ThreadStart ValidateRemainingPath
       \<in> set (events (execute exact ex_gen ex_interp ex_lin_dist ex_late_abort ex_path 1 0 ex_executor (Some ex_robot)))
   \<and> ThreadJoin ValidateRemainingPath
       \<notin> set (events (execute exact ex_gen ex_interp ex_lin_dist ex_late_abort ex_path 1 0 ex_executor (Some ex_robot)))"
proof -
  have a: "before_abort_check ex_late_abort = (\<lambda>i. [])" "before_cancel_check ex_late_abort = (\<lambda>i. [])"
    by (simp_all add: ex_late_abort_def quiet_def)
  show ?thesis
    unfolding ex_execute_quiet_ticks [OF a]
    by (simp add: finish_run_events) (simp add: ex_late_abort_def quiet_def)
qed

lemma abort_exit:
  assumes pc: "preconditions gen interp path e ro = Inr (pre @ tp # rest, s0)"
      and rf: "realtime_factor \<noteq> 0"
      and reach: "main_loop ar bu ld sch 0 (snd (hd (pre @ [tp]))) pre (start_run s0) = (s, SUCCESS, [])"
      and ab: "abort_execution (exe (env_steps (before_abort_check sch (length pre)) (push_sample tp s)))"
  shows "result (execute ar gen interp ld sch path realtime_factor bu e ro)
           = Inr \<lparr>status = EXECUTION_FAILURE, message = ''Trajectory execution aborted.''\<rparr>
       \<and> (\<forall>t. ThreadStart t \<in> set (events (execute ar gen interp ld sch path realtime_factor bu e ro))
             \<longrightarrow> ThreadJoin t \<in> set (events (execute ar gen interp ld sch path realtime_factor bu e ro)))
       \<and> (ThreadStart ValidateRemainingPath
              \<in> set (events (execute ar gen interp ld sch path realtime_factor bu e ro)))
           = (validate_during_execution e \<and> world (rob s0) \<noteq> None)
       \<and> (ThreadStart DetectClosedHallway
              \<in> set (events (execute ar gen interp ld sch path realtime_factor bu e ro)))
           = fog_hallways (rob s0)
       \<and> pose_updates (events (execute ar gen interp ld sch path realtime_factor bu e ro))
           = map snd (pre @ [tp])"
proof -
  let ?prev = "if pre = [] then snd tp else snd (last pre)"
  let ?t = "tick ar bu ld (before_abort_check sch (length pre)) (before_cancel_check sch (length pre)) ?prev tp s"
  let ?msg = "''Trajectory execution aborted.''"
  let ?o = "execute ar gen interp ld sch path realtime_factor bu e ro"
  have e0: "evs s0 = []" using preconditions_Inr [OF pc] by simp
  have ex: "?o = follow ar ld sch realtime_factor bu (pre @ tp # rest) s0"
    using pc by (simp add: execute_def)
  have br: "snd ?t = Some (EXECUTION_FAILURE, ?msg)" using tick_abort(1) [OF ab] .
  note fb = follow_break [OF rf reach br, of rest]
  have ev: "events ?o = evs (fst ?t) @
       (if hallway_states_updated (exe (env_steps (before_planner_check sch) (fst ?t)))
           \<and> (path_planner (rob (fst ?t)) = Some PRMPlanner \<or> path_planner (rob (fst ?t)) = Some AStarPlanner)
        then [ResetPathPlanner] else [])"
    unfolding ex fb by (simp add: finish_run_events)
  have k1: "setup_kept (start_run s0) s" using reached_run(1) [OF e0 reach] .
  have k2: "setup_kept s (fst ?t)" using tick_setup_kept .
  have r1: "result ?o = Inr \<lparr>status = EXECUTION_FAILURE, message = ?msg\<rparr>"
    unfolding ex fb by simp
  have r2: "\<forall>t. ThreadStart t \<in> set (events ?o) \<longrightarrow> ThreadJoin t \<in> set (events ?o)"
  proof (intro allI impI)
    fix t
    assume "ThreadStart t \<in> set (events ?o)"
    then have "ThreadStart t \<in> set (evs (fst ?t))"
      unfolding ev by (auto split: if_splits)
    then have "ThreadStart t \<in> set (evs (start_run s0))"
      using setup_kept_start [OF k2] setup_kept_start [OF k1] by blast
    from start_run_threads [OF e0 this]
    have "(validate_during_execution (exe s) \<and> validation_timer (exe s) = Some t)
          \<or> (fog_hallways (rob s) \<and> lidar_sensor_timer (exe s) = Some t)"
      using k1 by (auto simp: setup_kept_def)
    then have "ThreadJoin t \<in> set (evs (fst ?t))"
      using tick_abort(2) [OF ab] tick_abort(3) [OF ab] by blast
    then show "ThreadJoin t \<in> set (events ?o)"
      unfolding ev by simp
  qed
  have r3: "pose_updates (events ?o) = map snd (pre @ [tp])"
    unfolding ev
    using tick_pose_updates [of ar bu ld "before_abort_check sch (length pre)"
        "before_cancel_check sch (length pre)" ?prev tp s]
      reached_run(2) [OF e0 reach] by (simp add: pose_updates_append)
  have st: "\<And>t. (ThreadStart t \<in> set (events ?o)) = (ThreadStart t \<in> set (evs (start_run s0)))"
  proof
    fix t
    assume "ThreadStart t \<in> set (events ?o)"
    then have "ThreadStart t \<in> set (evs (fst ?t))"
      unfolding ev by (auto split: if_splits)
    then show "ThreadStart t \<in> set (evs (start_run s0))"
      using setup_kept_start [OF k2] setup_kept_start [OF k1] by blast
  next
    fix t
    assume a: "ThreadStart t \<in> set (evs (start_run s0))"
    from k1 k2 have "setup_kept (start_run s0) (fst ?t)" by (rule setup_kept_trans)
    then obtain new where "evs (fst ?t) = evs (start_run s0) @ new"
      by (auto simp: setup_kept_def)
    with a show "ThreadStart t \<in> set (events ?o)" unfolding ev by simp
  qed
  have ve: "validate_during_execution (exe s0) = validate_during_execution e"
    using preconditions_Inr [OF pc] by simp
  have r4: "(ThreadStart ValidateRemainingPath \<in> set (events ?o))
              = (validate_during_execution e \<and> world (rob s0) \<noteq> None)"
    unfolding st using e0 ve by (simp add: start_run_events)
  have r5: "(ThreadStart DetectClosedHallway \<in> set (events ?o)) = fog_hallways (rob s0)"
    unfolding st using e0 by (simp add: start_run_events)
  from r1 r2 r3 r4 r5 show ?thesis by blast
qed

text \<open>
  Claim C1, amended. When \<^verbatim>\<open>abort_execution\<close> is observed set at the abort check of a
  tick, the loop exits there, the returned status is \<^verbatim>\<open>EXECUTION_FAILURE\<close> with the
  abort message, and every thread the call has started is joined before the call
  returns; the validator is started exactly when validation is enabled and the robot has
  a world, the tracker exactly when the robot has \<^verbatim>\<open>fog_hallways\<close>. No other run joins
  a thread: whenever a call joins one, its result is that abort failure. And an abort
  raised after the main loop has exited, like every write of another thread there, is
  not observed: the result, the poses pushed to the robot and the joins of the call are
  what they are without it.
\<close>

theorem abort_observed:
  "(preconditions gen interp path e ro = Inr (pre @ tp # rest, s0)
      \<and> realtime_factor \<noteq> 0
      \<and> main_loop ar bu ld sch 0 (snd (hd (pre @ [tp]))) pre (start_run s0) = (s, SUCCESS, [])
      \<and> abort_execution (exe (env_steps (before_abort_check sch (length pre)) (push_sample tp s)))
    \<longrightarrow> result (execute ar gen interp ld sch path realtime_factor bu e ro)
           = Inr \<lparr>status = EXECUTION_FAILURE, message = ''Trajectory execution aborted.''\<rparr>
        \<and> (\<forall>t. ThreadStart t \<in> set (events (execute ar gen interp ld sch path realtime_factor bu e ro))
             \<longrightarrow> ThreadJoin t \<in> set (events (execute ar gen interp ld sch path realtime_factor bu e ro)))
        \<and> (ThreadStart ValidateRemainingPath
              \<in> set (events (execute ar gen interp ld sch path realtime_factor bu e ro)))
           = (validate_during_execution e \<and> world (rob s0) \<noteq> None)
        \<and> (ThreadStart DetectClosedHallway
              \<in> set (events (execute ar gen interp ld sch path realtime_factor bu e ro)))
           = fog_hallways (rob s0)
        \<and> pose_updates (events (execute ar gen interp ld sch path realtime_factor bu e ro))
           = map snd (pre @ [tp]))
   \<and> (ThreadJoin t \<in> set (events (execute ar gen interp ld sch path realtime_factor bu e ro))
    \<longrightarrow> result (execute ar gen interp ld sch path realtime_factor bu e ro)
           = Inr \<lparr>status = EXECUTION_FAILURE, message = ''Trajectory execution aborted.''\<rparr>)
   \<and> result (execute ar gen interp ld
             (sch\<lparr>before_planner_check := a, before_final_reset := b, before_return := c\<rparr>)
             path realtime_factor bu e ro)
       = result (execute ar gen interp ld sch path realtime_factor bu e ro)
   \<and> pose_updates (events (execute ar gen interp ld
             (sch\<lparr>before_planner_check := a, before_final_reset := b, before_return := c\<rparr>)
             path realtime_factor bu e ro))
       = pose_updates (events (execute ar gen interp ld sch path realtime_factor bu e ro))
   \<and> (ThreadJoin t \<in> set (events (execute ar gen interp ld
             (sch\<lparr>before_planner_check := a, before_final_reset := b, before_return := c\<rparr>)
             path realtime_factor bu e ro)))
       = (ThreadJoin t \<in> set (events (execute ar gen interp ld sch path realtime_factor bu e ro)))"
proof -
  have A: "preconditions gen interp path e ro = Inr (pre @ tp # rest, s0)
      \<and> realtime_factor \<noteq> 0
      \<and> main_loop ar bu ld sch 0 (snd (hd (pre @ [tp]))) pre (start_run s0) = (s, SUCCESS, [])
      \<and> abort_execution (exe (env_steps (before_abort_check sch (length pre)) (push_sample tp s)))
    \<longrightarrow> result (execute ar gen interp ld sch path realtime_factor bu e ro)
           = Inr \<lparr>status = EXECUTION_FAILURE, message = ''Trajectory execution aborted.''\<rparr>
        \<and> (\<forall>t. ThreadStart t \<in> set (events (execute ar gen interp ld sch path realtime_factor bu e ro))
             \<longrightarrow> ThreadJoin t \<in> set (events (execute ar gen interp ld sch path realtime_factor bu e ro)))
        \<and> (ThreadStart ValidateRemainingPath
              \<in> set (events (execute ar gen interp ld sch path realtime_factor bu e ro)))
           = (validate_during_execution e \<and> world (rob s0) \<noteq> None)
        \<and> (ThreadStart DetectClosedHallway
              \<in> set (events (execute ar gen interp ld sch path realtime_factor bu e ro)))
           = fog_hallways (rob s0)
        \<and> pose_updates (events (execute ar gen interp ld sch path realtime_factor bu e ro))
           = map snd (pre @ [tp])"
    by (intro impI, elim conjE) (rule abort_exit)
  have B: "ThreadJoin t \<in> set (events (execute ar gen interp ld sch path realtime_factor bu e ro))
    \<longrightarrow> result (execute ar gen interp ld sch path realtime_factor bu e ro)
           = Inr \<lparr>status = EXECUTION_FAILURE, message = ''Trajectory execution aborted.''\<rparr>"
    using joins_only_after_abort [of t ar gen interp ld sch path realtime_factor bu e ro] by blast
  from A B late_writes_unseen [where ar = ar and gen = gen and interp = interp and ld = ld
      and sch = sch and a = a and b = b and c = c and path = path
      and realtime_factor = realtime_factor and bu = bu and e = e and ro = ro and t = t]
  show ?thesis by blast
qed

text \<open>
  Witness for C1: the validator aborts before the abort check of the second tick; the
  same run with an abort, a cancel request and a hallway update after the loop.
\<close>

theorem abort_observed_witness:
  "result (execute exact ex_gen ex_interp ex_lin_dist ex_abort_at_1 ex_path 1 0 ex_executor (Some ex_robot))
     = Inr \<lparr>status = EXECUTION_FAILURE, message = ''Trajectory execution aborted.''\<rparr>
   \<and> ThreadStart ValidateRemainingPath \<in> set (events (execute exact ex_gen ex_interp ex_lin_dist
        ex_abort_at_1 ex_path 1 0 ex_executor (Some ex_robot)))
   \<and> ThreadJoin ValidateRemainingPath \<in> set (events (execute exact ex_gen ex_interp ex_lin_dist
        ex_abort_at_1 ex_path 1 0 ex_executor (Some ex_robot)))
   \<and> ThreadStart DetectClosedHallway \<in> set (events (execute exact ex_gen ex_interp ex_lin_dist
        ex_abort_at_1 ex_path 1 0 ex_executor (Some ex_robot)))
   \<and> ThreadJoin DetectClosedHallway \<in> set (events (execute exact ex_gen ex_interp ex_lin_dist
        ex_abort_at_1 ex_path 1 0 ex_executor (Some ex_robot)))
   \<and> pose_updates (events (execute exact ex_gen ex_interp ex_lin_dist ex_abort_at_1 ex_path 1 0
        ex_executor (Some ex_robot))) = [ex_pose 0 0, ex_pose 1 0]
   \<and> result (execute exact ex_gen ex_interp ex_lin_dist
        (ex_abort_at_1\<lparr>before_planner_check := [SetAbort], before_final_reset := [SetCancel],
           before_return := [AddHallway (hallway_ref ex_hallway)]\<rparr>)
        ex_path 1 0 ex_executor (Some ex_robot))
     = Inr \<lparr>status = EXECUTION_FAILURE, message = ''Trajectory execution aborted.''\<rparr>"
proof -
  have hyps: "preconditions ex_gen ex_interp ex_path ex_executor (Some ex_robot)
        = Inr ([(0, ex_pose 0 0)] @ (1, ex_pose 1 0) # [(2, ex_pose 2 0)], ex_checked)
      \<and> (1::real) \<noteq> 0
      \<and> main_loop exact 0 ex_lin_dist ex_abort_at_1 0
          (snd (hd ([(0, ex_pose 0 0)] @ [(1, ex_pose 1 0)]))) [(0, ex_pose 0 0)] (start_run ex_checked)
          = (ex_at 0 100 [SetPose (ex_pose 0 0)], SUCCESS, [])
      \<and> abort_execution (exe (env_steps
          (before_abort_check ex_abort_at_1 (length [(0::real, ex_pose 0 0)]))
          (push_sample (1, ex_pose 1 0) (ex_at 0 100 [SetPose (ex_pose 0 0)]))))"
  proof (intro conjI)
    show "main_loop exact 0 ex_lin_dist ex_abort_at_1 0
          (snd (hd ([(0, ex_pose 0 0)] @ [(1, ex_pose 1 0)]))) [(0, ex_pose 0 0)] (start_run ex_checked)
          = (ex_at 0 100 [SetPose (ex_pose 0 0)], SUCCESS, [])"
      unfolding ex_abort_at_1_def by (rule ex_reach) simp_all
  qed (simp_all add: ex_pc_split ex_abort_at_1_def quiet_def)
  have cfg: "validate_during_execution ex_executor" "world (rob ex_checked) \<noteq> None"
    "fog_hallways (rob ex_checked)"
    by (simp_all add: ex_executor_def init_def reset_state_def ex_checked_def ex_robot_def)
  show ?thesis
    using abort_observed [where ar = exact and gen = ex_gen and interp = ex_interp
        and path = ex_path and e = ex_executor and ro = "Some ex_robot"
        and pre = "[(0, ex_pose 0 0)]" and tp = "(1, ex_pose 1 0)" and rest = "[(2, ex_pose 2 0)]"
        and ?s0.0 = ex_checked and realtime_factor = 1 and bu = 0 and ld = ex_lin_dist
        and sch = ex_abort_at_1 and s = "ex_at 0 100 [SetPose (ex_pose 0 0)]"
        and t = ValidateRemainingPath and a = "[SetAbort]" and b = "[SetCancel]"
        and c = "[AddHallway (hallway_ref ex_hallway)]"] hyps cfg
    by auto
qed

section \<open>Planner reset\<close>

text \<open>
  When the hook is invoked: in a call that passes its precondition checks and raises no
  exception, the events of the call are the events up to the exit of the main loop,
  none of which is a planner reset, followed by one planner reset exactly when
  \<^verbatim>\<open>hallway_states_updated\<close> is set at the controller's single read of it after the
  loop and the robot's planner is a PRM or A* planner.
\<close>

lemma planner_reset_after_loop:
  assumes pc: "preconditions gen interp path e ro = Inr (ti, s0)"
      and rf: "realtime_factor \<noteq> 0"
      and ne: "ti \<noteq> []"
  shows "events (execute ar gen interp ld sch path realtime_factor bu e ro) =
           evs (fst (main_loop ar bu ld sch 0 (snd (hd ti)) ti (start_run s0))) @
           (if hallway_states_updated (exe (env_steps (before_planner_check sch)
                  (fst (main_loop ar bu ld sch 0 (snd (hd ti)) ti (start_run s0)))))
               \<and> (path_planner (rob s0) = Some PRMPlanner \<or> path_planner (rob s0) = Some AStarPlanner)
            then [ResetPathPlanner] else [])
       \<and> ResetPathPlanner \<notin> set (evs (fst (main_loop ar bu ld sch 0 (snd (hd ti)) ti (start_run s0))))
       \<and> count_list (events (execute ar gen interp ld sch path realtime_factor bu e ro)) ResetPathPlanner
           = (if hallway_states_updated (exe (env_steps (before_planner_check sch)
                  (fst (main_loop ar bu ld sch 0 (snd (hd ti)) ti (start_run s0)))))
               \<and> (path_planner (rob s0) = Some PRMPlanner \<or> path_planner (rob s0) = Some AStarPlanner)
              then 1 else 0)
       \<and> pose_updates (events (execute ar gen interp ld sch path realtime_factor bu e ro))
           = pose_updates (evs (fst (main_loop ar bu ld sch 0 (snd (hd ti)) ti (start_run s0))))"
proof -
  let ?ml = "main_loop ar bu ld sch 0 (snd (hd ti)) ti (start_run s0)"
  let ?o = "execute ar gen interp ld sch path realtime_factor bu e ro"
  have e0: "evs s0 = []" using preconditions_Inr [OF pc] by simp
  have ex: "?o = follow ar ld sch realtime_factor bu ti s0"
    using pc by (simp add: execute_def)
  have k: "setup_kept (start_run s0) (fst ?ml)" using main_loop_setup_kept .
  then have pp: "path_planner (rob (fst ?ml)) = path_planner (rob s0)"
    by (simp add: setup_kept_def start_run_robot)
  have r1: "events ?o = evs (fst ?ml) @
           (if hallway_states_updated (exe (env_steps (before_planner_check sch) (fst ?ml)))
               \<and> (path_planner (rob s0) = Some PRMPlanner \<or> path_planner (rob s0) = Some AStarPlanner)
            then [ResetPathPlanner] else [])"
    unfolding ex follow_normal [OF rf ne] using pp by (simp add: finish_run_events)
  have "ResetPathPlanner \<notin> set (evs (start_run s0))"
    using e0 by (simp add: start_run_events)
  then have r2: "ResetPathPlanner \<notin> set (evs (fst ?ml))"
    using setup_kept_reset [OF k] by blast
  then have c0: "count_list (evs (fst ?ml)) ResetPathPlanner = 0"
    by (simp add: count_list_0_iff)
  have r3: "count_list (events ?o) ResetPathPlanner
           = (if hallway_states_updated (exe (env_steps (before_planner_check sch) (fst ?ml)))
               \<and> (path_planner (rob s0) = Some PRMPlanner \<or> path_planner (rob s0) = Some AStarPlanner)
              then 1 else 0)"
    unfolding r1 using c0 by simp
  have r4: "pose_updates (events ?o) = pose_updates (evs (fst ?ml))"
    unfolding r1 by (simp add: pose_updates_append)
  from r1 r2 r3 r4 show ?thesis by blast
qed

text \<open>
  Claim C7. The code breaks the claim where a hallway update arrives late. The tracker
  is not joined when the loop ends, and the controller reads \<^verbatim>\<open>hallway_states_updated\<close>
  only once: an update that the tracker records after that read changes the robot's
  knowledge, the final reset discards the flag, and the planner is never reset. In the
  example the robot stands at the end of the path, its lidar (configured in the executor)
  measures 1/2 to the closed hallway ahead, and a pass of the tracker in that state
  writes exactly the update of the schedule; the run returns \<^verbatim>\<open>SUCCESS\<close> with the
  hallway recorded, a PRM planner, and no reset. The same update in the second tick of the
  loop is followed by exactly one reset.
\<close>

theorem late_hallway_update_lost:
  "detect_closed_hallway exact ex_intersects_xy [1 / 2]
       (ex_at 2 100 [SetPose (ex_pose 0 0), SetPose (ex_pose 1 0), SetPose (ex_pose 2 0)])
     = Continue (env_step
         (ex_at 2 100 [SetPose (ex_pose 0 0), SetPose (ex_pose 1 0), SetPose (ex_pose 2 0)])
         (AddHallway (hallway_ref ex_hallway)))
   \<and> before_final_reset ex_late_update = [AddHallway (hallway_ref ex_hallway)]
   \<and> path_planner ex_robot = Some PRMPlanner
   \<and> result (execute exact ex_gen ex_interp ex_lin_dist ex_late_update ex_path 1 0 ex_executor (Some ex_robot))
       = Inr \<lparr>status = SUCCESS, message = []\<rparr>
   \<and> map_option recorded_closed_hallways
        (final_rob (execute exact ex_gen ex_interp ex_lin_dist ex_late_update ex_path 1 0 ex_executor (Some ex_robot)))
       = Some {hallway_ref ex_hallway}
   \<and> ResetPathPlanner
       \<notin> set (events (execute exact ex_gen ex_interp ex_lin_dist ex_late_update ex_path 1 0 ex_executor (Some ex_robot)))
   \<and> count_list
        (events (execute exact ex_gen ex_interp ex_lin_dist ex_update_at_1 ex_path 1 0 ex_executor (Some ex_robot)))
        ResetPathPlanner = 1"
proof -
  have a: "before_abort_check ex_late_update = (\<lambda>i. [])" "before_cancel_check ex_late_update = (\<lambda>i. [])"
    by (simp_all add: ex_late_update_def quiet_def)
  have r: "recorded_closed_hallways (rob (fst (finish_run ex_late_update SUCCESS []
          (ex_at 2 100 [SetPose (ex_pose 0 0), SetPose (ex_pose 1 0), SetPose (ex_pose 2 0)]))))
        = {hallway_ref ex_hallway}"
    by (simp add: finish_run_recorded ex_late_update_def quiet_def ex_at_def ex_robot_def)
  have t: "detect_closed_hallway exact ex_intersects_xy [1 / 2]
       (ex_at 2 100 [SetPose (ex_pose 0 0), SetPose (ex_pose 1 0), SetPose (ex_pose 2 0)])
     = Continue (env_step
         (ex_at 2 100 [SetPose (ex_pose 0 0), SetPose (ex_pose 1 0), SetPose (ex_pose 2 0)])
         (AddHallway (hallway_ref ex_hallway)))"
    by (simp add: detect_closed_hallway_def detect_pass_def analyse_pose_def Let_def exact_def
        ex_at_def ex_begun_def ex_executor_def init_def reset_state_def ex_robot_def ex_lidar_def
        ex_hallway_def ex_intersects_xy_def ex_pose_def)
  have late: "result (execute exact ex_gen ex_interp ex_lin_dist ex_late_update ex_path 1 0 ex_executor (Some ex_robot))
       = Inr \<lparr>status = SUCCESS, message = []\<rparr>
   \<and> map_option recorded_closed_hallways
        (final_rob (execute exact ex_gen ex_interp ex_lin_dist ex_late_update ex_path 1 0 ex_executor (Some ex_robot)))
       = Some {hallway_ref ex_hallway}
   \<and> ResetPathPlanner
       \<notin> set (events (execute exact ex_gen ex_interp ex_lin_dist ex_late_update ex_path 1 0 ex_executor (Some ex_robot)))"
    unfolding ex_execute_quiet_ticks [OF a]
    using r by (simp add: finish_run_events) (simp add: ex_late_update_def quiet_def)
  have rf: "(1::real) \<noteq> 0" by simp
  have ne: "ex_traj \<noteq> []" by (simp add: ex_traj_def)
  have u0: "before_abort_check ex_update_at_1 0 = []" "before_cancel_check ex_update_at_1 0 = []"
    and u1: "list_ex tracker_write (before_abort_check ex_update_at_1 (Suc 0))"
    by (simp_all add: ex_update_at_1_def quiet_def)
  have "hallway_states_updated (exe (fst (main_loop exact 0 ex_lin_dist ex_update_at_1 0
          (snd (hd ex_traj)) ex_traj (start_run ex_checked))))"
    using ex_tick0 [of 0] u0
      main_loop_head_flag [OF u1, of exact 0 ex_lin_dist "ex_pose 0 0" "(1, ex_pose 1 0)"
        "[(2, ex_pose 2 0)]" "ex_at 0 100 [SetPose (ex_pose 0 0)]"]
    by (simp add: ex_traj_def ex_start_run)
  then have mid: "count_list
        (events (execute exact ex_gen ex_interp ex_lin_dist ex_update_at_1 ex_path 1 0 ex_executor (Some ex_robot)))
        ResetPathPlanner = 1"
    using planner_reset_after_loop [OF ex_pc rf ne, of exact ex_lin_dist ex_update_at_1 0]
    by (simp add: ex_checked_def ex_robot_def)
  have p: "path_planner ex_robot = Some PRMPlanner" by (simp add: ex_robot_def)
  have f: "before_final_reset ex_late_update = [AddHallway (hallway_ref ex_hallway)]"
    by (simp add: ex_late_update_def quiet_def)
  from t f p late mid show ?thesis by blast
qed

section \<open>Requests after the last flag check\<close>

text \<open>
  Claim C10, as stated, fails: a cancel request that arrives after the final
  \<^verbatim>\<open>reset_state\<close>, during the grace period, is not cleared by that reset. In the
  example the result is \<^verbatim>\<open>SUCCESS\<close> and \<^verbatim>\<open>cancel_execution\<close> is set when
  \<^verbatim>\<open>execute\<close> returns.
\<close>

theorem cancel_after_final_reset_counterexample:
  "SetCancel \<in> set (before_return ex_late_cancel)
   \<and> result (execute exact ex_gen ex_interp ex_lin_dist ex_late_cancel ex_path 1 0 ex_executor (Some ex_robot))
       = Inr \<lparr>status = SUCCESS, message = []\<rparr>
   \<and> cancel_execution
        (final_exe (execute exact ex_gen ex_interp ex_lin_dist ex_late_cancel ex_path 1 0 ex_executor (Some ex_robot)))
   \<and> \<not> baseline
        (final_exe (execute exact ex_gen ex_interp ex_lin_dist ex_late_cancel ex_path 1 0 ex_executor (Some ex_robot)))"
proof -
  have a: "before_abort_check ex_late_cancel = (\<lambda>i. [])" "before_cancel_check ex_late_cancel = (\<lambda>i. [])"
    by (simp_all add: ex_late_cancel_def quiet_def)
  show ?thesis
    unfolding ex_execute_quiet_ticks [OF a]
    by (simp add: finish_run_flags baseline_def) (simp add: ex_late_cancel_def quiet_def)
qed

text \<open>
  Claim C10, amended. The returned result does not depend on what the other threads
  write after the main loop has exited: a cancel request there never produces
  \<^verbatim>\<open>CANCELED\<close>. In a call that passes its precondition checks and raises no
  exception, the five execution-state fields are at their baseline when \<^verbatim>\<open>execute\<close>
  returns exactly when no other thread writes after the final reset; in particular
  \<^verbatim>\<open>cancel_execution\<close> is set at return exactly when a cancel request arrives after
  that reset.
\<close>

theorem late_requests_discarded:
  "result (execute ar gen interp ld
             (sch\<lparr>before_planner_check := a, before_final_reset := b, before_return := c\<rparr>)
             path realtime_factor bu e ro)
     = result (execute ar gen interp ld sch path realtime_factor bu e ro)
   \<and> (preconditions gen interp path e ro = Inr (ti, s0) \<and> realtime_factor \<noteq> 0 \<and> ti \<noteq> []
      \<longrightarrow> baseline (final_exe (execute ar gen interp ld sch path realtime_factor bu e ro))
            = (before_return sch = [])
        \<and> cancel_execution (final_exe (execute ar gen interp ld sch path realtime_factor bu e ro))
            = (SetCancel \<in> set (before_return sch)))"
proof -
  let ?sch' = "sch\<lparr>before_planner_check := a, before_final_reset := b, before_return := c\<rparr>"
  have same: "\<And>i prev samples s. main_loop ar bu ld ?sch' i prev samples s = main_loop ar bu ld sch i prev samples s"
    by (rule main_loop_same_ticks) simp_all
  have r1: "result (execute ar gen interp ld ?sch' path realtime_factor bu e ro)
              = result (execute ar gen interp ld sch path realtime_factor bu e ro)"
  proof (cases "preconditions gen interp path e ro")
    case (Inl out)
    then show ?thesis by (simp add: execute_def)
  next
    case (Inr p)
    obtain ti' s0' where p: "p = (ti', s0')" by (cases p)
    show ?thesis
      using Inr p by (simp add: execute_def follow_result same)
  qed
  have r2: "preconditions gen interp path e ro = Inr (ti, s0) \<and> realtime_factor \<noteq> 0 \<and> ti \<noteq> []
      \<longrightarrow> baseline (final_exe (execute ar gen interp ld sch path realtime_factor bu e ro))
            = (before_return sch = [])
        \<and> cancel_execution (final_exe (execute ar gen interp ld sch path realtime_factor bu e ro))
            = (SetCancel \<in> set (before_return sch))"
  proof (intro impI, elim conjE)
    assume pc: "preconditions gen interp path e ro = Inr (ti, s0)"
       and rf: "realtime_factor \<noteq> 0" and ne: "ti \<noteq> []"
    have ex: "execute ar gen interp ld sch path realtime_factor bu e ro
                = follow ar ld sch realtime_factor bu ti s0"
      using pc by (simp add: execute_def)
    show "baseline (final_exe (execute ar gen interp ld sch path realtime_factor bu e ro))
            = (before_return sch = [])
        \<and> cancel_execution (final_exe (execute ar gen interp ld sch path realtime_factor bu e ro))
            = (SetCancel \<in> set (before_return sch))"
      unfolding ex follow_normal [OF rf ne]
      using no_write_iff_empty [of "before_return sch"]
      by (simp add: baseline_def finish_run_flags)
  qed
  from r1 r2 show ?thesis by blast
qed

text \<open>
  Witness for C10: cancel requests at all three places after the loop, and the quiet
  run.
\<close>

theorem late_requests_discarded_witness:
  "result (execute exact ex_gen ex_interp ex_lin_dist
             (quiet\<lparr>before_planner_check := [SetCancel], before_final_reset := [SetCancel],
                    before_return := [SetCancel]\<rparr>)
             ex_path 1 0 ex_executor (Some ex_robot))
     = Inr \<lparr>status = SUCCESS, message = []\<rparr>
   \<and> baseline (final_exe (execute exact ex_gen ex_interp ex_lin_dist quiet ex_path 1 0 ex_executor
        (Some ex_robot)))
   \<and> \<not> cancel_execution (final_exe (execute exact ex_gen ex_interp ex_lin_dist quiet ex_path 1 0
        ex_executor (Some ex_robot)))"
proof -
  have q: "before_abort_check (quiet :: schedule) = (\<lambda>i. [])"
    "before_cancel_check (quiet :: schedule) = (\<lambda>i. [])"
    "before_return (quiet :: schedule) = []"
    by (simp_all add: quiet_def)
  have r: "result (execute exact ex_gen ex_interp ex_lin_dist quiet ex_path 1 0 ex_executor (Some ex_robot))
     = Inr \<lparr>status = SUCCESS, message = []\<rparr>"
    unfolding ex_execute_quiet_ticks [OF q(1,2)] by simp
  have h: "preconditions ex_gen ex_interp ex_path ex_executor (Some ex_robot) = Inr (ex_traj, ex_checked)
      \<and> (1::real) \<noteq> 0 \<and> ex_traj \<noteq> []"
    using ex_pc by (simp add: ex_traj_def)
  show ?thesis
    using late_requests_discarded [where ar = exact and gen = ex_gen and interp = ex_interp and ld = ex_lin_dist
        and sch = quiet and a = "[SetCancel]" and b = "[SetCancel]" and c = "[SetCancel]"
        and path = ex_path and realtime_factor = 1 and bu = 0 and e = ex_executor
        and ro = "Some ex_robot" and ti = ex_traj and ?s0.0 = ex_checked] h r q(3)
    by simp
qed

end
